theory Spec2Isabelle
  imports Complex_Main "HOL-Library.Sublist" "HOL-Library.Monad_Syntax"
begin

section \<open>The Express demo server of \<^verbatim>\<open>example-nodejs-app/app.js\<close>\<close>

text \<open>
  The application is one module: a constant \<^verbatim>\<open>PORT\<close>, three middleware registrations,
  three \<^verbatim>\<open>GET\<close> routes and a call of \<^verbatim>\<open>app.listen\<close>. Its handlers build their answer from
  the process (\<^verbatim>\<open>process.env\<close>, \<^verbatim>\<open>process.version\<close>, \<^verbatim>\<open>process.uptime()\<close>, \<^verbatim>\<open>new Date()\<close>)
  and hand it to \<^verbatim>\<open>res.send\<close> or \<^verbatim>\<open>res.json\<close> of Express, which look at the request before
  they answer. The process is a record, a request is a record, and the life of the server
  is a list of events. Strings are byte strings: text outside ASCII is written as its
  UTF-8 bytes.
\<close>

subsection \<open>Environment lookups and the \<^verbatim>\<open>||\<close> default\<close>

text \<open>
  \<^verbatim>\<open>process.env\<close> maps names to strings; a name that is not set reads as \<^verbatim>\<open>undefined\<close>,
  here \<open>None\<close>. In \<^verbatim>\<open>process.env.X || d\<close> the left operand is kept when it is truthy. The
  falsy values such a lookup can give are \<^verbatim>\<open>undefined\<close> and the empty string. \<open>Inl\<close> is the
  string of the environment, \<open>Inr\<close> the default.
\<close>

type_synonym environment = "string \<rightharpoonup> string"

definition js_or :: "string option \<Rightarrow> 'a \<Rightarrow> string + 'a" where
  "js_or v d = (case v of None \<Rightarrow> Inr d | Some s \<Rightarrow> if s = [] then Inr d else Inl s)"

text \<open>Line 4: \<^verbatim>\<open>const PORT = process.env.PORT || 3000\<close>, a string or the number 3000.\<close>

definition PORT :: "environment \<Rightarrow> string + nat" where
  "PORT env = js_or (env ''PORT'') 3000"

text \<open>
  Lines 42 and 71: \<^verbatim>\<open>process.env.NODE_ENV || 'development'\<close>; both operands are strings, so
  is the result.
\<close>

definition node_env :: "environment \<Rightarrow> string" where
  "node_env env = (case js_or (env ''NODE_ENV'') ''development'' of Inl s \<Rightarrow> s | Inr d \<Rightarrow> d)"

subsection \<open>The runtime: time values and \<^verbatim>\<open>Date.prototype.toISOString\<close>\<close>

text \<open>
  The handlers call \<^verbatim>\<open>new Date().toISOString()\<close>. That function belongs to the JavaScript
  runtime, not to the repository; it is written out here after ECMA-262 (section "Date
  Objects") so that the timestamp of a response is a concrete string. The time value of a
  \<^verbatim>\<open>Date\<close> made by \<^verbatim>\<open>new Date()\<close> is a whole number of milliseconds since 1970-01-01T00:00Z,
  at most 8.64e15 in absolute value.
\<close>

typedef time_value = "{t :: int. - 8640000000000000 \<le> t \<and> t \<le> 8640000000000000}"
  morphisms ms_of time_of
  by (rule exI [of _ 0]) simp

definition msPerDay :: int where
  "msPerDay = 86400000"

definition Day :: "int \<Rightarrow> int" where
  "Day t = t div msPerDay"

definition HourFromTime :: "int \<Rightarrow> int" where
  "HourFromTime t = (t div 3600000) mod 24"

definition MinFromTime :: "int \<Rightarrow> int" where
  "MinFromTime t = (t div 60000) mod 60"

definition SecFromTime :: "int \<Rightarrow> int" where
  "SecFromTime t = (t div 1000) mod 60"

definition msFromTime :: "int \<Rightarrow> int" where
  "msFromTime t = t mod 1000"

text \<open>
  The Gregorian date of a day number (days since 1970-01-01), counted in years that begin
  on 1 March, so that the leap day is the last day of its year. A day is located in its
  400-year cycle of 146097 days (\<open>doe\<close> is the day of the cycle), then in its century
  \<open>c\<close>, its 4-year group \<open>q\<close> and its year \<open>a\<close>; \<open>doy\<close> is the day of that
  year and \<open>mp\<close> its month, with 0 for March.
\<close>

definition year_of_era :: "int \<Rightarrow> int \<times> int" where
  "year_of_era doe =
     (let c = min 3 (doe div 36524);
          r1 = doe - c * 36524;
          q = r1 div 1461;
          r2 = r1 mod 1461;
          a = min 3 (r2 div 365)
      in (c * 100 + q * 4 + a, r2 - a * 365))"

definition month_of_doy :: "int \<Rightarrow> int \<times> int" where
  "month_of_doy doy =
     (let mp = (5 * doy + 2) div 153
      in (mp, doy - (153 * mp + 2) div 5 + 1))"

text \<open>The result is (year, month 1..12, day of the month 1..31).\<close>

definition civil_from_days :: "int \<Rightarrow> int \<times> int \<times> int" where
  "civil_from_days d =
     (let z = d + 719468;
          (yoe, doy) = year_of_era (z mod 146097);
          (mp, dom) = month_of_doy doy;
          y = (z div 146097) * 400 + yoe;
          m = (if mp < 10 then mp + 3 else mp - 9)
      in (if m \<le> 2 then y + 1 else y, m, dom))"

text \<open>
  ECMA-262 defines the year of a time value through the day number of 1 January:
  \<open>YearFromTime t\<close> is the largest year \<open>y\<close> with \<open>DayFromYear y \<le> Day t\<close>. The
  year is computed here from the decomposition above; that the two agree is proved below.
\<close>

definition DayFromYear :: "int \<Rightarrow> int" where
  "DayFromYear y = 365 * (y - 1970) + (y - 1969) div 4 - (y - 1901) div 100 + (y - 1601) div 400"

definition YearFromTime :: "int \<Rightarrow> int" where
  "YearFromTime t = fst (civil_from_days (Day t))"

text \<open>As in ECMA-262, \<open>MonthFromTime\<close> counts from 0 (January) and \<open>DateFromTime\<close> from 1.\<close>

definition MonthFromTime :: "int \<Rightarrow> int" where
  "MonthFromTime t = fst (snd (civil_from_days (Day t))) - 1"

definition DateFromTime :: "int \<Rightarrow> int" where
  "DateFromTime t = snd (snd (civil_from_days (Day t)))"

text \<open>
  The last \<open>w\<close> decimal digits of a number \<open>n\<close> that is not negative, most significant
  first.
\<close>

definition digit_char :: "int \<Rightarrow> char" where
  "digit_char n = ''0123456789'' ! nat n"

fun pad_digits :: "nat \<Rightarrow> int \<Rightarrow> string" where
  "pad_digits 0 n = []"
| "pad_digits (Suc w) n = pad_digits w (n div 10) @ [digit_char (n mod 10)]"

text \<open>
  Years 0 to 9999 are written with four digits, every other year with a sign and six
  digits (the expanded years of ECMA-262).
\<close>

definition year_string :: "int \<Rightarrow> string" where
  "year_string y =
     (if 0 \<le> y \<and> y \<le> 9999 then pad_digits 4 y
      else (if y < 0 then CHR ''-'' else CHR ''+'') # pad_digits 6 \<bar>y\<bar>)"

definition iso_format :: "int \<Rightarrow> string" where
  "iso_format t =
     year_string (YearFromTime t) @ ''-'' @ pad_digits 2 (MonthFromTime t + 1) @ ''-''
     @ pad_digits 2 (DateFromTime t) @ ''T'' @ pad_digits 2 (HourFromTime t) @ '':''
     @ pad_digits 2 (MinFromTime t) @ '':'' @ pad_digits 2 (SecFromTime t) @ ''.''
     @ pad_digits 3 (msFromTime t) @ ''Z''"

definition toISOString :: "time_value \<Rightarrow> string" where
  "toISOString tv = iso_format (ms_of tv)"

subsection \<open>The date-time format\<close>

text \<open>
  The complete date-time form of ISO 8601 in UTC that ECMA-262 prescribes,
  \<^verbatim>\<open>YYYY-MM-DDTHH:mm:ss.sssZ\<close>, where the year may also be a sign and six digits
  (\<^verbatim>\<open>-000000\<close> is excluded). The parser reads the fields from left to right; a string is
  valid when it parses and its fields name a date of the Gregorian calendar and a time of
  the day: the day of the month is at most the length of that month in that year.
\<close>

definition is_digit :: "char \<Rightarrow> bool" where
  "is_digit c = (c \<in> set ''0123456789'')"

definition digit_value :: "char \<Rightarrow> int" where
  "digit_value c = of_char c - 48"

definition number_of :: "string \<Rightarrow> int" where
  "number_of s = foldl (\<lambda>n c. 10 * n + digit_value c) 0 s"

definition leap_year :: "int \<Rightarrow> bool" where
  "leap_year y = (y mod 4 = 0 \<and> (y mod 100 \<noteq> 0 \<or> y mod 400 = 0))"

definition days_in_month :: "int \<Rightarrow> int \<Rightarrow> int" where
  "days_in_month y m =
     (if m = 2 then (if leap_year y then 29 else 28)
      else if m = 4 \<or> m = 6 \<or> m = 9 \<or> m = 11 then 30
      else 31)"

text \<open>A number of exactly \<open>w\<close> digits at the head of the string.\<close>

definition digits :: "nat \<Rightarrow> string \<Rightarrow> (int \<times> string) option" where
  "digits w s =
     (let d = take w s
      in if length d = w \<and> list_all is_digit d then Some (number_of d, drop w s) else None)"

definition lit :: "char \<Rightarrow> string \<Rightarrow> string option" where
  "lit c s = (case s of [] \<Rightarrow> None | x # r \<Rightarrow> if x = c then Some r else None)"

definition read_year :: "string \<Rightarrow> (int \<times> string) option" where
  "read_year s =
     (case s of
        [] \<Rightarrow> None
      | c # r \<Rightarrow>
          if c = CHR ''+'' then digits 6 r
          else if c = CHR ''-'' then
            (case digits 6 r of
               None \<Rightarrow> None
             | Some (n, r') \<Rightarrow> if n = 0 then None else Some (- n, r'))
          else digits 4 s)"

definition parse_iso :: "string \<Rightarrow> (int \<times> int \<times> int \<times> int \<times> int \<times> int \<times> int) option" where
  "parse_iso s0 = do {
     (y, s1) \<leftarrow> read_year s0;
     s2 \<leftarrow> lit CHR ''-'' s1;
     (mo, s3) \<leftarrow> digits 2 s2;
     s4 \<leftarrow> lit CHR ''-'' s3;
     (d, s5) \<leftarrow> digits 2 s4;
     s6 \<leftarrow> lit CHR ''T'' s5;
     (h, s7) \<leftarrow> digits 2 s6;
     s8 \<leftarrow> lit CHR '':'' s7;
     (mi, s9) \<leftarrow> digits 2 s8;
     s10 \<leftarrow> lit CHR '':'' s9;
     (sec, s11) \<leftarrow> digits 2 s10;
     s12 \<leftarrow> lit CHR ''.'' s11;
     (ms, s13) \<leftarrow> digits 3 s12;
     s14 \<leftarrow> lit CHR ''Z'' s13;
     if s14 = [] then Some (y, mo, d, h, mi, sec, ms) else None
   }"

definition is_iso8601 :: "string \<Rightarrow> bool" where
  "is_iso8601 s =
     (case parse_iso s of
        None \<Rightarrow> False
      | Some (y, mo, d, h, mi, sec, ms) \<Rightarrow>
          1 \<le> mo \<and> mo \<le> 12 \<and> 1 \<le> d \<and> d \<le> days_in_month y mo \<and>
          h \<le> 23 \<and> mi \<le> 59 \<and> sec \<le> 59)"

subsection \<open>The process\<close>

text \<open>
  What the handlers read from the process. \<open>release\<close> is the version of the runtime
  without its prefix (such as \<^verbatim>\<open>18.17.0\<close>), \<open>clock\<close> the system clock that \<^verbatim>\<open>new Date()\<close>
  reads, and \<open>up_ns\<close> the nanoseconds that the monotonic clock has counted since the process
  started.
\<close>

record process =
  env :: environment
  release :: string
  clock :: time_value
  up_ns :: nat

text \<open>\<^verbatim>\<open>process.version\<close> is the release with the prefix \<^verbatim>\<open>v\<close>.\<close>

definition process_version :: "process \<Rightarrow> string" where
  "process_version p = CHR ''v'' # release p"

text \<open>
  \<^verbatim>\<open>process.uptime()\<close> is the elapsed time in seconds, with a fraction. It is a real number
  here; the rounding to a double is not modelled.
\<close>

definition process_uptime :: "process \<Rightarrow> real" where
  "process_uptime p = real (up_ns p) / 1000000000"

subsection \<open>Requests and responses\<close>

text \<open>
  A request as the framework sees it: the method in upper case, the path of the URL
  without the query, the headers with their names in lower case, and the body.
\<close>

record request =
  "method" :: string
  path :: string
  headers :: "(string \<times> string) list"
  body :: string

definition header :: "request \<Rightarrow> string \<Rightarrow> string option" where
  "header q name = map_of (headers q) name"

text \<open>A header counts as given when it is there and not empty (a truthy string).\<close>

definition given :: "string option \<Rightarrow> bool" where
  "given v = (case v of None \<Rightarrow> False | Some s \<Rightarrow> s \<noteq> [])"

text \<open>
  A response is its status code, its \<^verbatim>\<open>Content-Type\<close> header and its payload. The payload of
  \<^verbatim>\<open>res.json(obj)\<close> is the text \<^verbatim>\<open>JSON.stringify(obj)\<close>; it is kept as the object, a list of
  keys and values in the order of the object literal. An empty body is \<open>Text []\<close>. Other
  headers are not modelled.
\<close>

datatype json_value = JString string | JNumber real

type_synonym json_object = "(string \<times> json_value) list"

datatype payload = Text string | Json json_object

record response =
  statusCode :: nat
  content_type :: "string option"
  payload :: payload

text \<open>The value of a key in the object of a JSON response.\<close>

definition json_field :: "response \<Rightarrow> string \<Rightarrow> json_value option" where
  "json_field r k = (case payload r of Json obj \<Rightarrow> map_of obj k | Text t \<Rightarrow> None)"

subsection \<open>What is left open of the framework\<close>

text \<open>
  The code of Express and of the middleware packages is not part of the repository. Their
  control flow is written out below; five things that depend on data outside this model
  are parameters:
  \<^item> \<open>json_fault\<close>: the status with which \<^verbatim>\<open>express.json()\<close> rejects the body of a request
    (400 for a body that does not parse), \<open>None\<close> when it accepts the request or the
    request has no JSON body;
  \<^item> \<open>static_file\<close>: the answer of \<^verbatim>\<open>express.static('public')\<close> when the static directory
    holds a file for the request, \<open>None\<close> when it does not;
  \<^item> \<open>no_cache\<close>: whether a \<^verbatim>\<open>Cache-Control\<close> value lists \<^verbatim>\<open>no-cache\<close>;
  \<^item> \<open>revalidates\<close>: the outcome of the comparison of the validators of a conditional
    request (the entity tags listed by \<^verbatim>\<open>If-None-Match\<close>, and \<^verbatim>\<open>If-Modified-Since\<close>) with
    the entity tag that Express computes from the payload;
  \<^item> \<open>error_page\<close>: the HTML document of an error response.
\<close>

record express =
  json_fault :: "request \<Rightarrow> nat option"
  static_file :: "request \<Rightarrow> response option"
  no_cache :: "string \<Rightarrow> bool"
  revalidates :: "request \<Rightarrow> payload \<Rightarrow> bool"
  error_page :: "nat \<Rightarrow> request \<Rightarrow> string"

subsection \<open>Sending: \<^verbatim>\<open>res.send\<close> and \<^verbatim>\<open>res.json\<close>\<close>

text \<open>
  \<^verbatim>\<open>req.fresh\<close>: a \<^verbatim>\<open>GET\<close> or \<^verbatim>\<open>HEAD\<close> request is fresh when the response has a status 2xx or
  304 and the request is a conditional request whose validators match. A request without
  \<^verbatim>\<open>If-None-Match\<close> is never fresh here, because the handlers set no \<^verbatim>\<open>Last-Modified\<close>; a
  request with \<^verbatim>\<open>Cache-Control: no-cache\<close> is never fresh; \<^verbatim>\<open>If-None-Match: *\<close> alone matches
  every response.
\<close>

definition fresh :: "express \<Rightarrow> request \<Rightarrow> nat \<Rightarrow> payload \<Rightarrow> bool" where
  "fresh fw q status pl =
     ((method q = ''GET'' \<or> method q = ''HEAD'') \<and>
      (200 \<le> status \<and> status < 300 \<or> status = 304) \<and>
      (if \<not> given (header q ''if-none-match'') then False
       else if (case header q ''cache-control'' of None \<Rightarrow> False
                | Some v \<Rightarrow> v \<noteq> [] \<and> no_cache fw v) then False
       else if header q ''if-none-match'' = Some ''*''
               \<and> \<not> given (header q ''if-modified-since'') then True
       else revalidates fw q pl))"

text \<open>
  The response object a handler receives: status 200, no \<^verbatim>\<open>Content-Type\<close>, nothing sent. No
  handler of the application sets the status.
\<close>

definition fresh_res :: response where
  "fresh_res = \<lparr>statusCode = 200, content_type = None, payload = Text []\<rparr>"

text \<open>
  The end of \<^verbatim>\<open>res.send\<close>: a fresh request turns the status into 304; a response with
  status 204 or 304 loses its \<^verbatim>\<open>Content-Type\<close> and its body; a response with status 205 and
  a response to \<^verbatim>\<open>HEAD\<close> lose their body.
\<close>

definition send :: "express \<Rightarrow> request \<Rightarrow> payload \<Rightarrow> response \<Rightarrow> response" where
  "send fw q pl res =
     (let status = (if fresh fw q (statusCode res) pl then 304 else statusCode res);
          bare = (status = 204 \<or> status = 304)
      in \<lparr>statusCode = status,
          content_type = (if bare then None else content_type res),
          payload = (if bare \<or> status = 205 \<or> method q = ''HEAD'' then Text [] else pl)\<rparr>)"

text \<open>The answer to a fresh request.\<close>

definition not_modified :: response where
  "not_modified = \<lparr>statusCode = 304, content_type = None, payload = Text []\<rparr>"

text \<open>
  \<^verbatim>\<open>res.send(string)\<close> and \<^verbatim>\<open>res.json(obj)\<close> choose the \<^verbatim>\<open>Content-Type\<close> when none has been
  set, and send.
\<close>

definition res_send :: "express \<Rightarrow> request \<Rightarrow> string \<Rightarrow> response \<Rightarrow> response" where
  "res_send fw q text res =
     send fw q (Text text)
       (res\<lparr>content_type :=
          (case content_type res of None \<Rightarrow> Some ''text/html; charset=utf-8''
           | Some ct \<Rightarrow> Some ct)\<rparr>)"

definition res_json :: "express \<Rightarrow> request \<Rightarrow> json_object \<Rightarrow> response \<Rightarrow> response" where
  "res_json fw q obj res =
     send fw q (Json obj)
       (res\<lparr>content_type :=
          (case content_type res of None \<Rightarrow> Some ''application/json; charset=utf-8''
           | Some ct \<Rightarrow> Some ct)\<rparr>)"

subsection \<open>The route handlers\<close>

text \<open>The two characters of the page outside ASCII, in UTF-8: U+1F680 and U+2705.\<close>

definition rocket :: string where
  "rocket = [CHR 0xF0, CHR 0x9F, CHR 0x9A, CHR 0x80]"

definition check_mark :: string where
  "check_mark = [CHR 0xE2, CHR 0x9C, CHR 0x85]"

text \<open>
  Lines 13 to 54: the template literal of the home page, cut at the ends of the lines of
  the source and at its three substitutions, which are parameters. The page is the
  concatenation of the pieces.
\<close>

definition home_lines :: "string \<Rightarrow> string \<Rightarrow> string \<Rightarrow> string list" where
  \<open>home_lines version environment timestamp =
    [''\<newline>'',
     ''        <!DOCTYPE html>\<newline>'',
     ''        <html lang="en">\<newline>'',
     ''        <head>\<newline>'',
     ''            <meta charset="UTF-8">\<newline>'',
     ''            <meta name="viewport" content="width=device-width, initial-scale=1.0">\<newline>'',
     ''            <title>Simple Blog App</title>\<newline>'',
     ''            <style>\<newline>'',
     ''                body { font-family: Arial, sans-serif; margin: 40px; background: #f5f5f5; }\<newline>'',
     ''                .container { max-width: 800px; margin: 0 auto; background: white; padding: 30px; border-radius: 10px; box-shadow: 0 2px 10px rgba(0,0,0,0.1); }\<newline>'',
     ''                .header { text-align: center; color: #333; margin-bottom: 30px; }\<newline>'',
     ''                .info { background: #e8f4fd; padding: 15px; border-radius: 5px; margin: 15px 0; }\<newline>'',
     ''                .success { background: #d4edda; color: #155724; padding: 15px; border-radius: 5px; margin: 15px 0; }\<newline>'',
     ''            </style>\<newline>'',
     ''        </head>\<newline>'',
     ''        <body>\<newline>'',
     ''            <div class="container">\<newline>'',
     ''                <div class="header">\<newline>'',
     ''                    <h1>'' @ rocket @ '' Simple Blog App</h1>\<newline>'',
     ''                    <p>Node.js Application deployed via GitHub Actions</p>\<newline>'',
     ''                </div>\<newline>'',
     ''                \<newline>'',
     ''                <div class="success">\<newline>'',
     ''                    '' @ check_mark @ '' Application is running successfully!\<newline>'',
     ''                </div>\<newline>'',
     ''                \<newline>'',
     ''                <div class="info">\<newline>'',
     ''                    <h3>System Information</h3>\<newline>'',
     ''                    <p><strong>Node.js Version:</strong> '',
     version,
     ''</p>\<newline>'',
     ''                    <p><strong>Environment:</strong> '',
     environment,
     ''</p>\<newline>'',
     ''                    <p><strong>Timestamp:</strong> '',
     timestamp,
     ''</p>\<newline>'',
     ''                </div>\<newline>'',
     ''                \<newline>'',
     ''                <div class="info">\<newline>'',
     ''                    <h3>API Endpoints</h3>\<newline>'',
     ''                    <p><a href="/api/health">Health Check</a></p>\<newline>'',
     ''                    <p><a href="/api/info">System Info</a></p>\<newline>'',
     ''                </div>\<newline>'',
     ''            </div>\<newline>'',
     ''        </body>\<newline>'',
     ''        </html>\<newline>'',
     ''    '']\<close>

definition home_page :: "string \<Rightarrow> string \<Rightarrow> string \<Rightarrow> string" where
  "home_page version environment timestamp = concat (home_lines version environment timestamp)"


text \<open>Lines 12 to 55: \<^verbatim>\<open>app.get('/', ...)\<close>.\<close>

definition home :: "express \<Rightarrow> process \<Rightarrow> request \<Rightarrow> response" where
  "home fw p q =
     res_send fw q
       (home_page (process_version p) (node_env (env p)) (toISOString (clock p)))
       fresh_res"

text \<open>Lines 57 to 63: \<^verbatim>\<open>app.get('/api/health', ...)\<close>.\<close>

definition health :: "express \<Rightarrow> process \<Rightarrow> request \<Rightarrow> response" where
  "health fw p q =
     res_json fw q
       [(''status'', JString ''healthy''),
        (''timestamp'', JString (toISOString (clock p))),
        (''uptime'', JNumber (process_uptime p))]
       fresh_res"

text \<open>Lines 65 to 74: \<^verbatim>\<open>app.get('/api/info', ...)\<close>.\<close>

definition info :: "express \<Rightarrow> process \<Rightarrow> request \<Rightarrow> response" where
  "info fw p q =
     res_json fw q
       [(''status'', JString ''success''),
        (''message'', JString ''Simple Blog App Node.js Application''),
        (''version'', JString ''1.0.0''),
        (''node_version'', JString (process_version p)),
        (''environment'', JString (node_env (env p))),
        (''timestamp'', JString (toISOString (clock p)))]
       fresh_res"

subsection \<open>The middleware\<close>

text \<open>
  Lines 7 to 9. Each middleware either answers a request itself (\<open>Some\<close>) or passes it on
  (\<open>None\<close>). \<^verbatim>\<open>cors()\<close> answers a preflight, a request with the method \<^verbatim>\<open>OPTIONS\<close>, with 204
  and no body. \<^verbatim>\<open>express.json()\<close> hands a body it rejects to the error handler of the
  framework. \<^verbatim>\<open>express.static\<close> looks for a file only when the method is \<^verbatim>\<open>GET\<close> or
  \<^verbatim>\<open>HEAD\<close>. The header that \<^verbatim>\<open>cors()\<close> adds to the requests it passes on is not modelled.
\<close>

definition error_response :: "express \<Rightarrow> nat \<Rightarrow> request \<Rightarrow> response" where
  "error_response fw code q =
     \<lparr>statusCode = code, content_type = Some ''text/html; charset=utf-8'',
      payload = (if method q = ''HEAD'' then Text [] else Text (error_page fw code q))\<rparr>"

definition cors :: "request \<Rightarrow> response option" where
  "cors q =
     (if method q = ''OPTIONS''
      then Some \<lparr>statusCode = 204, content_type = None, payload = Text []\<rparr>
      else None)"

definition express_json :: "express \<Rightarrow> request \<Rightarrow> response option" where
  "express_json fw q =
     (case json_fault fw q of None \<Rightarrow> None | Some code \<Rightarrow> Some (error_response fw code q))"

definition express_static :: "express \<Rightarrow> request \<Rightarrow> response option" where
  "express_static fw q =
     (if method q = ''GET'' \<or> method q = ''HEAD'' then static_file fw q else None)"

definition middleware :: "express \<Rightarrow> (request \<Rightarrow> response option) list" where
  "middleware fw = [cors, express_json fw, express_static fw]"

text \<open>The first middleware of the list that answers the request.\<close>

fun first_answer :: "(request \<Rightarrow> response option) list \<Rightarrow> request \<Rightarrow> response option" where
  "first_answer [] q = None"
| "first_answer (m # ms) q = (case m q of Some r \<Rightarrow> Some r | None \<Rightarrow> first_answer ms q)"

subsection \<open>The router and the fallback\<close>

text \<open>
  The router of Express with its default settings compares paths without regard to the
  case of ASCII letters and lets a path end in one more slash than the pattern (or, for a
  pattern that ends in a slash, one less). A route registered with \<^verbatim>\<open>app.get\<close> also takes
  the requests with the method \<^verbatim>\<open>HEAD\<close>.
\<close>

definition lower :: "char \<Rightarrow> char" where
  "lower c =
     (case map_of (zip ''ABCDEFGHIJKLMNOPQRSTUVWXYZ'' ''abcdefghijklmnopqrstuvwxyz'') c of
        Some l \<Rightarrow> l
      | None \<Rightarrow> c)"

definition path_matches :: "string \<Rightarrow> string \<Rightarrow> bool" where
  "path_matches pattern p =
     (let have = map lower p; want = map lower pattern
      in if want \<noteq> [] \<and> last want = CHR ''/'' then have = want \<or> have = butlast want
         else have = want \<or> have = want @ ''/'')"

definition route_matches :: "string \<times> string \<Rightarrow> request \<Rightarrow> bool" where
  "route_matches r q =
     ((method q = fst r \<or> fst r = ''GET'' \<and> method q = ''HEAD'') \<and>
      path_matches (snd r) (path q))"

text \<open>Lines 12, 57 and 65: the three routes, in the order of their registration.\<close>

definition routes :: "((string \<times> string) \<times> (express \<Rightarrow> process \<Rightarrow> request \<Rightarrow> response)) list" where
  "routes =
     [((''GET'', ''/''), home),
      ((''GET'', ''/api/health''), health),
      ((''GET'', ''/api/info''), info)]"

text \<open>
  Nothing is registered after the routes, so a request that nothing has answered goes to
  the final handler of the framework: status 404 and an error page.
\<close>

definition finalhandler :: "express \<Rightarrow> request \<Rightarrow> response" where
  "finalhandler fw q = error_response fw 404 q"

definition app :: "express \<Rightarrow> process \<Rightarrow> request \<Rightarrow> response" where
  "app fw p q =
     (case first_answer (middleware fw) q of
        Some r \<Rightarrow> r
      | None \<Rightarrow>
          (case find (\<lambda>(r, h). route_matches r q) routes of
             Some (r, h) \<Rightarrow> h fw p q
           | None \<Rightarrow> finalhandler fw q))"

subsection \<open>The life of the server\<close>

text \<open>
  Loading the module evaluates \<^verbatim>\<open>PORT\<close> once (line 4) and hands it to \<^verbatim>\<open>app.listen\<close>
  (line 76). \<open>listening\<close> is that argument: a string from the environment or the number
  3000.
\<close>

record server =
  listening :: "string + nat"
  proc :: process

definition start :: "process \<Rightarrow> server" where
  "start p = \<lparr>listening = PORT (env p), proc = p\<rparr>"

text \<open>
  What the listener of the runtime binds for that argument. A number, and a string of
  decimal digits, is a port: 0 lets the system choose one, a number above 65535 is
  refused. The other strings are not interpreted here (the runtime takes a string that is
  no number for the name of a pipe, and reads numbers in other notations).
\<close>

datatype binding = Port nat | AnyPort | Refused | Uninterpreted string

definition port_binding :: "int \<Rightarrow> binding" where
  "port_binding n = (if n = 0 then AnyPort else if n \<le> 65535 then Port (nat n) else Refused)"

definition net_listen :: "string + nat \<Rightarrow> binding" where
  "net_listen a =
     (case a of
        Inr n \<Rightarrow> port_binding (int n)
      | Inl s \<Rightarrow>
          if s \<noteq> [] \<and> list_all is_digit s then port_binding (number_of s)
          else Uninterpreted s)"

text \<open>
  After the start the process changes by events: time passes on the monotonic clock, the
  system clock is set, a variable of \<^verbatim>\<open>process.env\<close> is assigned or deleted, a request
  arrives. No statement of the application writes to the process, so a request leaves it
  as it is.
\<close>

datatype event =
  Elapse nat
| ClockSet time_value
| EnvSet string string
| EnvDelete string
| Request request

fun advance :: "event \<Rightarrow> process \<Rightarrow> process" where
  "advance (Elapse d) p = p\<lparr>up_ns := up_ns p + d\<rparr>"
| "advance (ClockSet t) p = p\<lparr>clock := t\<rparr>"
| "advance (EnvSet k v) p = p\<lparr>env := (env p)(k \<mapsto> v)\<rparr>"
| "advance (EnvDelete k) p = p\<lparr>env := (env p)(k := None)\<rparr>"
| "advance (Request q) p = p"

definition step :: "event \<Rightarrow> server \<Rightarrow> server" where
  "step e s = s\<lparr>proc := advance e (proc s)\<rparr>"

text \<open>The requests of a run with their responses, in the order of arrival.\<close>

fun serve :: "express \<Rightarrow> server \<Rightarrow> event list \<Rightarrow> (request \<times> response) list" where
  "serve fw s [] = []"
| "serve fw s (Request q # es) = (q, app fw (proc s) q) # serve fw s es"
| "serve fw s (e # es) = serve fw (step e s) es"

subsection \<open>A small deployment\<close>

text \<open>
  An instance of the parameters, for running the model: an empty static directory, a body
  parser that rejects exactly the requests whose body is \<^verbatim>\<open>{\<close>, no entity tag that
  matches, and the error page of the framework for a plain path. Then a process, and
  requests without and with headers.
\<close>

definition bare_express :: express where
  \<open>bare_express =
     \<lparr>json_fault = (\<lambda>q. if body q = ''{'' then Some 400 else None),
      static_file = (\<lambda>q. None),
      no_cache = (\<lambda>v. v = ''no-cache''),
      revalidates = (\<lambda>q pl. False),
      error_page = (\<lambda>code q.
        ''<!DOCTYPE html>\<newline><html lang="en">\<newline><head>\<newline><meta charset="utf-8">\<newline>''
        @ ''<title>Error</title>\<newline></head>\<newline><body>\<newline><pre>Cannot ''
        @ method q @ '' '' @ path q @ ''</pre>\<newline></body>\<newline></html>\<newline>'')\<rparr>\<close>

definition leap_day_process :: "environment \<Rightarrow> process" where
  "leap_day_process e =
     \<lparr>env = e, release = ''18.17.0'', clock = time_of 1709210096789, up_ns = 1500000000\<rparr>"

definition get :: "string \<Rightarrow> request" where
  "get p = \<lparr>method = ''GET'', path = p, headers = [], body = []\<rparr>"

definition conditional_get :: "string \<Rightarrow> request" where
  "conditional_get p =
     \<lparr>method = ''GET'', path = p, headers = [(''if-none-match'', ''*'')], body = []\<rparr>"


text \<open>
  A request whose JSON body does not parse, a preflight, and a deployment whose static
  directory holds files: \<open>files\<close> lists the path of a request with the answer of
  \<^verbatim>\<open>express.static\<close> for it.
\<close>

definition broken_get :: "string \<Rightarrow> request" where
  "broken_get p =
     \<lparr>method = ''GET'', path = p, headers = [(''content-type'', ''application/json'')],
      body = ''{''\<rparr>"

definition preflight :: "string \<Rightarrow> request" where
  "preflight p = \<lparr>method = ''OPTIONS'', path = p, headers = [], body = []\<rparr>"

definition serving :: "(string \<times> response) list \<Rightarrow> express" where
  "serving files = bare_express\<lparr>static_file := (\<lambda>q. map_of files (path q))\<rparr>"

definition file_response :: "string \<Rightarrow> string \<Rightarrow> response" where
  "file_response ct text = \<lparr>statusCode = 200, content_type = Some ct, payload = Text text\<rparr>"
section \<open>The timestamp\<close>

subsection \<open>Digits\<close>

lemma digit_char_props:
  assumes "0 \<le> k" and "k < 10"
  shows "is_digit (digit_char k)" and "digit_value (digit_char k) = k"
proof -
  from assms have "k = 0 \<or> k = 1 \<or> k = 2 \<or> k = 3 \<or> k = 4 \<or> k = 5 \<or> k = 6 \<or> k = 7
      \<or> k = 8 \<or> k = 9"
    by arith
  then have "is_digit (digit_char k) \<and> digit_value (digit_char k) = k"
    by (elim disjE) (simp_all add: digit_char_def is_digit_def digit_value_def)
  then show "is_digit (digit_char k)" and "digit_value (digit_char k) = k"
    by simp_all
qed

lemma length_pad_digits: "length (pad_digits w n) = w"
  by (induction w arbitrary: n) simp_all

lemma pad_digits_all_digits: "list_all is_digit (pad_digits w n)"
  by (induction w arbitrary: n) (simp_all add: digit_char_props)

lemma number_of_snoc: "number_of (s @ [c]) = 10 * number_of s + digit_value c"
  by (simp add: number_of_def)

lemma number_of_pad_digits:
  "0 \<le> n \<Longrightarrow> n < 10 ^ w \<Longrightarrow> number_of (pad_digits w n) = n"
proof (induction w arbitrary: n)
  case 0
  then show ?case by (simp add: number_of_def)
next
  case (Suc w)
  from Suc.prems have "0 \<le> n div 10" and "n div 10 < 10 ^ w"
    by simp_all
  then have "number_of (pad_digits w (n div 10)) = n div 10"
    by (rule Suc.IH)
  then show ?case
    by (simp add: number_of_snoc digit_char_props)
qed

lemma pad_digits_numeral:
  "pad_digits (numeral k) n = pad_digits (pred_numeral k) (n div 10) @ [digit_char (n mod 10)]"
  by (simp only: numeral_eq_Suc [of k] pad_digits.simps)

subsection \<open>The readers on the output of the formatter\<close>

lemma digits_pad_digits:
  assumes "0 \<le> n" and "n < 10 ^ w"
  shows "digits w (pad_digits w n @ rest) = Some (n, rest)"
  using assms
  by (simp add: digits_def length_pad_digits pad_digits_all_digits number_of_pad_digits)

lemma lit_Cons: "lit c (c # rest) = Some rest"
  by (simp add: lit_def)

lemma is_digit_not_sign: "is_digit c \<Longrightarrow> c \<noteq> CHR ''+'' \<and> c \<noteq> CHR ''-''"
  by (auto simp: is_digit_def)

lemma read_year_year_string:
  assumes "- 999999 \<le> y" and "y \<le> 999999"
  shows "read_year (year_string y @ rest) = Some (y, rest)"
proof -
  consider "0 \<le> y \<and> y \<le> 9999" | "y < 0" | "9999 < y"
    by linarith
  then show ?thesis
  proof cases
    case 1
    obtain c r where cr: "pad_digits 4 y = c # r"
      using length_pad_digits [of 4 y] by (cases "pad_digits 4 y") simp_all
    have "is_digit c"
      using pad_digits_all_digits [of 4 y] by (simp add: cr)
    then have "c \<noteq> CHR ''+''" and "c \<noteq> CHR ''-''"
      by (simp_all add: is_digit_not_sign)
    then have "read_year (year_string y @ rest) = digits 4 (pad_digits 4 y @ rest)"
      using 1 by (simp add: read_year_def year_string_def cr)
    also have "\<dots> = Some (y, rest)"
      using 1 by (intro digits_pad_digits) auto
    finally show ?thesis .
  next
    case 2
    have "digits 6 (pad_digits 6 \<bar>y\<bar> @ rest) = Some (\<bar>y\<bar>, rest)"
      using assms by (intro digits_pad_digits) auto
    then show ?thesis
      using 2 by (simp add: read_year_def year_string_def)
  next
    case 3
    have "digits 6 (pad_digits 6 \<bar>y\<bar> @ rest) = Some (\<bar>y\<bar>, rest)"
      using assms by (intro digits_pad_digits) auto
    then show ?thesis
      using 3 by (simp add: read_year_def year_string_def)
  qed
qed

subsection \<open>The fields of a date are in range\<close>

lemma year_of_era_bounds:
  assumes "0 \<le> doe" and "doe < 146097"
  shows "0 \<le> fst (year_of_era doe) \<and> fst (year_of_era doe) \<le> 399 \<and>
         0 \<le> snd (year_of_era doe) \<and> snd (year_of_era doe) \<le> 365"
proof -
  define c where "c = min 3 (doe div 36524)"
  define r1 where "r1 = doe - c * 36524"
  define q where "q = r1 div 1461"
  define r2 where "r2 = r1 mod 1461"
  define a where "a = min 3 (r2 div 365)"
  have c: "0 \<le> c" "c \<le> 3"
    using assms by (auto simp: c_def)
  have r1: "0 \<le> r1" "r1 \<le> 36524"
    using assms c unfolding r1_def c_def by (auto simp: min_def)
  have q: "0 \<le> q" "q \<le> 24"
    using r1 unfolding q_def by auto
  have r2: "0 \<le> r2" "r2 \<le> 1460"
    unfolding r2_def by auto
  have a: "0 \<le> a" "a \<le> 3"
    using r2 by (auto simp: a_def)
  have doy: "0 \<le> r2 - a * 365" "r2 - a * 365 \<le> 365"
    using r2 unfolding a_def by (auto simp: min_def)
  have "year_of_era doe = (c * 100 + q * 4 + a, r2 - a * 365)"
    by (simp add: year_of_era_def Let_def c_def r1_def q_def r2_def a_def)
  then show ?thesis
    using c q a doy by auto
qed

lemma month_of_doy_bounds:
  assumes "0 \<le> doy" and "doy \<le> 365"
  shows "0 \<le> fst (month_of_doy doy) \<and> fst (month_of_doy doy) \<le> 11 \<and>
         1 \<le> snd (month_of_doy doy) \<and> snd (month_of_doy doy) \<le> 31"
  using assms unfolding month_of_doy_def Let_def by auto

lemma civil_from_days_bounds:
  "1 \<le> fst (snd (civil_from_days d)) \<and> fst (snd (civil_from_days d)) \<le> 12 \<and>
   1 \<le> snd (snd (civil_from_days d)) \<and> snd (snd (civil_from_days d)) \<le> 31"
proof -
  define doe where "doe = (d + 719468) mod 146097"
  obtain yoe doy where yd: "year_of_era doe = (yoe, doy)"
    by (cases "year_of_era doe")
  obtain mp dom where md: "month_of_doy doy = (mp, dom)"
    by (cases "month_of_doy doy")
  have "0 \<le> doe" and "doe < 146097"
    by (simp_all add: doe_def)
  from year_of_era_bounds [OF this] have "0 \<le> doy" and "doy \<le> 365"
    by (simp_all add: yd)
  from month_of_doy_bounds [OF this] have "0 \<le> mp" "mp \<le> 11" "1 \<le> dom" "dom \<le> 31"
    by (simp_all add: md)
  then show ?thesis
    using yd md by (auto simp: civil_from_days_def doe_def Let_def)
qed

lemma civil_from_days_year:
  assumes "- 100000000 \<le> d" and "d \<le> 100000000"
  shows "- 999999 \<le> fst (civil_from_days d) \<and> fst (civil_from_days d) \<le> 999999"
proof -
  define doe where "doe = (d + 719468) mod 146097"
  define era where "era = (d + 719468) div 146097"
  obtain yoe doy where yd: "year_of_era doe = (yoe, doy)"
    by (cases "year_of_era doe")
  obtain mp dom where md: "month_of_doy doy = (mp, dom)"
    by (cases "month_of_doy doy")
  have "0 \<le> doe" and "doe < 146097"
    by (simp_all add: doe_def)
  from year_of_era_bounds [OF this] have yoe: "0 \<le> yoe" "yoe \<le> 399"
    by (simp_all add: yd)
  have era: "- 1000 \<le> era" "era \<le> 1000"
    using assms unfolding era_def by auto
  have "fst (civil_from_days d) = era * 400 + yoe \<or> fst (civil_from_days d) = era * 400 + yoe + 1"
    using yd md by (simp add: civil_from_days_def doe_def era_def Let_def)
  then show ?thesis
    using yoe era by auto
qed

lemma year_of_era_split:
  assumes "0 \<le> doe" and "doe < 146097"
  shows "\<exists>c q a doy. year_of_era doe = (100 * c + 4 * q + a, doy) \<and>
           doe = 36524 * c + 1461 * q + 365 * a + doy \<and>
           0 \<le> c \<and> c \<le> 3 \<and> 0 \<le> q \<and> q \<le> 24 \<and> 0 \<le> a \<and> a \<le> 3 \<and> 0 \<le> doy \<and>
           (doy \<le> 364 \<or> doy = 365 \<and> a = 3 \<and> (q \<le> 23 \<or> c = 3))"
proof -
  define c where "c = min 3 (doe div 36524)"
  define r1 where "r1 = doe - c * 36524"
  define q where "q = r1 div 1461"
  define r2 where "r2 = r1 mod 1461"
  define a where "a = min 3 (r2 div 365)"
  have c: "0 \<le> c" "c \<le> 3"
    using assms by (auto simp: c_def)
  have r1: "0 \<le> r1" "r1 \<le> 36524" "r1 \<le> 36523 \<or> c = 3"
    using assms c unfolding r1_def c_def by (auto simp: min_def)
  have q: "0 \<le> q" "q \<le> 24"
    using r1 unfolding q_def by auto
  have r2: "0 \<le> r2" "r2 \<le> 1460" "r1 = 1461 * q + r2"
    unfolding r2_def q_def by auto
  have a: "0 \<le> a" "a \<le> 3"
    using r2 by (auto simp: a_def)
  have doy: "0 \<le> r2 - a * 365" "r2 - a * 365 \<le> 364 \<or> r2 - a * 365 = 365 \<and> a = 3 \<and> r2 = 1460"
    using r2 unfolding a_def by (auto simp: min_def)
  have last: "q \<le> 23 \<or> c = 3" if "r2 = 1460"
    using that r1 r2 by linarith
  have "year_of_era doe = (100 * c + 4 * q + a, r2 - a * 365)"
    by (simp add: year_of_era_def Let_def c_def r1_def q_def r2_def a_def)
  moreover have "doe = 36524 * c + 1461 * q + 365 * a + (r2 - a * 365)"
    using r2 by (simp add: r1_def)
  ultimately show ?thesis
    using c q a doy last by blast
qed

subsection \<open>The day of the month exists\<close>

lemma leap_after_long_march_year:
  assumes "0 \<le> c" and "0 \<le> q" and "q \<le> 24" and "q \<le> 23 \<or> c = 3"
  shows "leap_year (400 * e + (100 * c + 4 * q + 3) + 1)"
proof -
  define y where "y = 400 * e + (100 * c + 4 * q + 3) + 1"
  have four: "y = 4 * (100 * e + 25 * c + q + 1)"
    by (simp add: y_def)
  have hundred: "y = 100 * (4 * e + c) + (4 * q + 4)"
    by (simp add: y_def)
  have "y mod 4 = 0"
    unfolding four by simp
  moreover have "y mod 100 \<noteq> 0 \<or> y mod 400 = 0"
  proof (cases "q \<le> 23")
    case True
    have "y mod 100 = (4 * q + 4) mod 100"
      by (subst hundred) (rule mod_mult_self4)
    also have "\<dots> = 4 * q + 4"
      using True assms(2) by (intro mod_pos_pos_trivial) simp_all
    finally show ?thesis
      using assms(2) by simp
  next
    case False
    with assms have "q = 24" and "c = 3"
      by simp_all
    then have "y = 400 * (e + 1)"
      by (simp add: y_def)
    then show ?thesis
      by simp
  qed
  ultimately show ?thesis
    by (simp add: leap_year_def y_def)
qed

lemma month_of_doy_cases:
  assumes "0 \<le> doy" and "doy \<le> 365"
  shows "\<exists>mp. month_of_doy doy = (mp, doy - (153 * mp + 2) div 5 + 1) \<and> 0 \<le> mp \<and> mp \<le> 11 \<and>
           (153 * mp + 2) div 5 \<le> doy \<and> doy < (153 * (mp + 1) + 2) div 5"
  using assms unfolding month_of_doy_def Let_def by auto

lemma civil_from_days_valid:
  "1 \<le> fst (snd (civil_from_days d)) \<and> fst (snd (civil_from_days d)) \<le> 12 \<and>
   1 \<le> snd (snd (civil_from_days d)) \<and>
   snd (snd (civil_from_days d))
     \<le> days_in_month (fst (civil_from_days d)) (fst (snd (civil_from_days d)))"
proof -
  define e where "e = (d + 719468) div 146097"
  define doe where "doe = (d + 719468) mod 146097"
  have doe: "0 \<le> doe" "doe < 146097"
    by (simp_all add: doe_def)
  from year_of_era_split [OF doe] obtain c q a doy
    where yoe: "year_of_era doe = (100 * c + 4 * q + a, doy)"
      and c: "0 \<le> c" "c \<le> 3" and q: "0 \<le> q" "q \<le> 24" and a: "0 \<le> a" "a \<le> 3"
      and doy: "0 \<le> doy" "doy \<le> 364 \<or> doy = 365 \<and> a = 3 \<and> (q \<le> 23 \<or> c = 3)"
    by blast
  have "doy \<le> 365"
    using doy(2) by auto
  from month_of_doy_cases [OF doy(1) this] obtain mp
    where md: "month_of_doy doy = (mp, doy - (153 * mp + 2) div 5 + 1)"
      and mp: "0 \<le> mp" "mp \<le> 11"
      and lo: "(153 * mp + 2) div 5 \<le> doy" and hi: "doy < (153 * (mp + 1) + 2) div 5"
    by blast
  define y where "y = 400 * e + (100 * c + 4 * q + a)"
  have civil: "civil_from_days d =
      (if mp < 10 then y else y + 1, if mp < 10 then mp + 3 else mp - 9,
       doy - (153 * mp + 2) div 5 + 1)"
    using yoe md mp
    by (auto simp: civil_from_days_def Let_def doe_def [symmetric] e_def [symmetric] y_def)
  from mp have "mp = 0 \<or> mp = 1 \<or> mp = 2 \<or> mp = 3 \<or> mp = 4 \<or> mp = 5 \<or> mp = 6 \<or> mp = 7
      \<or> mp = 8 \<or> mp = 9 \<or> mp = 10 \<or> mp = 11"
    by arith
  then consider "mp = 0" | "mp = 1" | "mp = 2" | "mp = 3" | "mp = 4" | "mp = 5" | "mp = 6"
    | "mp = 7" | "mp = 8" | "mp = 9" | "mp = 10" | "mp = 11"
    by blast
  then show ?thesis
  proof cases
    case 12
    have feb: "civil_from_days d = (y + 1, 2, doy - 336)"
      using civil 12 by simp
    have "doy - 336 \<le> days_in_month (y + 1) 2"
    proof (cases "doy \<le> 364")
      case True
      then show ?thesis
        by (simp add: days_in_month_def)
    next
      case False
      with doy(2) have "doy = 365" and "a = 3" and "q \<le> 23 \<or> c = 3"
        by simp_all
      with leap_after_long_march_year [OF c(1) q this(3), of e] show ?thesis
        by (simp add: days_in_month_def y_def)
    qed
    moreover have "1 \<le> doy - 336"
      using lo 12 by simp
    ultimately show ?thesis
      by (simp add: feb)
  qed (use civil lo hi in \<open>simp_all add: days_in_month_def\<close>)
qed

subsection \<open>The formatter writes the format\<close>

lemma Day_bounds:
  "- 100000000 \<le> Day (ms_of tv) \<and> Day (ms_of tv) \<le> 100000000"
  using ms_of [of tv] by (auto simp: Day_def msPerDay_def)

lemma parse_iso_format:
  assumes "- 999999 \<le> YearFromTime t" and "YearFromTime t \<le> 999999"
  shows "parse_iso (iso_format t) =
    Some (YearFromTime t, MonthFromTime t + 1, DateFromTime t, HourFromTime t, MinFromTime t,
      SecFromTime t, msFromTime t)"
proof -
  have valid: "1 \<le> MonthFromTime t + 1" "MonthFromTime t + 1 \<le> 12" "1 \<le> DateFromTime t"
    "DateFromTime t \<le> days_in_month (YearFromTime t) (MonthFromTime t + 1)"
    using civil_from_days_valid [of "Day t"]
    by (simp_all add: MonthFromTime_def DateFromTime_def YearFromTime_def)
  have "days_in_month (YearFromTime t) (MonthFromTime t + 1) \<le> 31"
    by (simp add: days_in_month_def)
  with valid(4) have day: "DateFromTime t \<le> 31"
    by linarith
  have month: "digits 2 (pad_digits 2 (MonthFromTime t + 1) @ rest)
      = Some (MonthFromTime t + 1, rest)" for rest
    using valid(1,2) by (intro digits_pad_digits) simp_all
  have date: "digits 2 (pad_digits 2 (DateFromTime t) @ rest) = Some (DateFromTime t, rest)"
    for rest
    using valid(3) day by (intro digits_pad_digits) simp_all
  have "0 \<le> HourFromTime t" and "HourFromTime t \<le> 23"
    by (simp_all add: HourFromTime_def)
  then have hour: "digits 2 (pad_digits 2 (HourFromTime t) @ rest) = Some (HourFromTime t, rest)"
    for rest
    by (intro digits_pad_digits) simp_all
  have "0 \<le> MinFromTime t" and "MinFromTime t \<le> 59"
    by (simp_all add: MinFromTime_def)
  then have minute: "digits 2 (pad_digits 2 (MinFromTime t) @ rest) = Some (MinFromTime t, rest)"
    for rest
    by (intro digits_pad_digits) simp_all
  have "0 \<le> SecFromTime t" and "SecFromTime t \<le> 59"
    by (simp_all add: SecFromTime_def)
  then have second: "digits 2 (pad_digits 2 (SecFromTime t) @ rest) = Some (SecFromTime t, rest)"
    for rest
    by (intro digits_pad_digits) simp_all
  have "0 \<le> msFromTime t" and "msFromTime t \<le> 999"
    by (simp_all add: msFromTime_def)
  then have ms: "digits 3 (pad_digits 3 (msFromTime t) @ rest) = Some (msFromTime t, rest)"
    for rest
    by (intro digits_pad_digits) simp_all
  show ?thesis
    unfolding parse_iso_def iso_format_def
    by (simp add: read_year_year_string [OF assms] lit_Cons month date hour minute second ms)
qed

lemma toISOString_is_iso8601: "is_iso8601 (toISOString tv)"
proof -
  define t where "t = ms_of tv"
  have year: "- 999999 \<le> YearFromTime t" "YearFromTime t \<le> 999999"
    using civil_from_days_year [of "Day t"] Day_bounds [of tv]
    by (simp_all add: YearFromTime_def t_def)
  have date: "1 \<le> MonthFromTime t + 1 \<and> MonthFromTime t + 1 \<le> 12 \<and> 1 \<le> DateFromTime t \<and>
      DateFromTime t \<le> days_in_month (YearFromTime t) (MonthFromTime t + 1)"
    using civil_from_days_valid [of "Day t"]
    by (simp add: MonthFromTime_def DateFromTime_def YearFromTime_def)
  have time: "HourFromTime t \<le> 23" "MinFromTime t \<le> 59" "SecFromTime t \<le> 59"
    by (simp_all add: HourFromTime_def MinFromTime_def SecFromTime_def)
  show ?thesis
    using date time
    by (simp add: is_iso8601_def toISOString_def t_def [symmetric] parse_iso_format [OF year])
qed

text \<open>The formatter at the epoch, on leap days, and at the ends of its ranges.\<close>

lemma iso_format_epoch: "iso_format 0 = ''1970-01-01T00:00:00.000Z''"
  by code_simp

lemma iso_format_before_epoch: "iso_format (- 1) = ''1969-12-31T23:59:59.999Z''"
  by code_simp

lemma iso_format_leap_century: "iso_format 951782400000 = ''2000-02-29T00:00:00.000Z''"
  by code_simp

lemma iso_format_common_century: "iso_format 4107542400000 = ''2100-03-01T00:00:00.000Z''"
  by code_simp

lemma iso_format_last_short_year: "iso_format 253402300799999 = ''9999-12-31T23:59:59.999Z''"
  by code_simp

lemma iso_format_first_long_year: "iso_format 253402300800000 = ''+010000-01-01T00:00:00.000Z''"
  by code_simp

lemma iso_format_year_zero: "iso_format (- 62167219200000) = ''0000-01-01T00:00:00.000Z''"
  by code_simp

lemma iso_format_negative_year: "iso_format (- 62167219200001) = ''-000001-12-31T23:59:59.999Z''"
  by code_simp

lemma iso_format_latest: "iso_format 8640000000000000 = ''+275760-09-13T00:00:00.000Z''"
  by code_simp

lemma iso_format_earliest: "iso_format (- 8640000000000000) = ''-271821-04-20T00:00:00.000Z''"
  by code_simp

subsection \<open>The year is the year of ECMA-262\<close>

lemma DayFromYear_era:
  "DayFromYear (400 * e + r) =
     146097 * e + 365 * r + (r + 3) div 4 - (r + 99) div 100 + (r + 399) div 400 - 719528"
proof -
  have a: "(400 * e + r - 1969) div 4 = 100 * e - 493 + (r + 3) div 4"
    by linarith
  have b: "(400 * e + r - 1901) div 100 = 4 * e - 20 + (r + 99) div 100"
    by linarith
  have c: "(400 * e + r - 1601) div 400 = e - 5 + (r + 399) div 400"
    by linarith
  show ?thesis
    unfolding DayFromYear_def a b c by (simp add: algebra_simps)
qed

lemma march_year_days:
  assumes "0 \<le> c" "c \<le> 3" "0 \<le> q" "q \<le> 24" "0 \<le> a" "a \<le> 3" "0 \<le> k" "k \<le> 2"
  shows "DayFromYear (400 * e + (100 * c + 4 * q + a + k)) =
     146097 * e + 36524 * c + 1461 * q + 365 * a + 365 * k
       + (a + k + 3) div 4 - (4 * q + a + k + 99) div 100
       + (100 * c + 4 * q + a + k + 399) div 400 - 719528"
proof -
  have x: "(100 * c + 4 * q + a + k + 3) div 4 = 25 * c + q + (a + k + 3) div 4"
    by linarith
  have y: "(100 * c + 4 * q + a + k + 99) div 100 = c + (4 * q + a + k + 99) div 100"
    by linarith
  show ?thesis
    unfolding DayFromYear_era x y by (simp add: algebra_simps)
qed

lemma month_of_doy_late: "0 \<le> doy \<Longrightarrow> (fst (month_of_doy doy) < 10) = (doy \<le> 305)"
  unfolding month_of_doy_def Let_def by auto

lemma civil_year_is_YearFromTime:
  "DayFromYear (fst (civil_from_days d)) \<le> d \<and> d < DayFromYear (fst (civil_from_days d) + 1)"
proof -
  define e where "e = (d + 719468) div 146097"
  define doe where "doe = (d + 719468) mod 146097"
  have doe: "0 \<le> doe" "doe < 146097" and d: "d = 146097 * e + doe - 719468"
    by (simp_all add: doe_def e_def)
  from year_of_era_split [OF doe] obtain c q a doy
    where yoe: "year_of_era doe = (100 * c + 4 * q + a, doy)"
      and split: "doe = 36524 * c + 1461 * q + 365 * a + doy"
      and c: "0 \<le> c" "c \<le> 3" and q: "0 \<le> q" "q \<le> 24" and a: "0 \<le> a" "a \<le> 3"
      and doy: "0 \<le> doy" "doy \<le> 364 \<or> doy = 365 \<and> a = 3 \<and> (q \<le> 23 \<or> c = 3)"
    by blast
  obtain mp dom where md: "month_of_doy doy = (mp, dom)"
    by (cases "month_of_doy doy")
  have late: "(mp < 10) = (doy \<le> 305)"
    using month_of_doy_late [OF doy(1)] by (simp add: md)
  have "doy \<le> 365"
    using doy(2) by auto
  from month_of_doy_bounds [OF doy(1) this] have mp: "0 \<le> mp" "mp \<le> 11"
    by (simp_all add: md)
  define k :: int where "k = (if doy \<le> 305 then 0 else 1)"
  have year: "fst (civil_from_days d) = 400 * e + (100 * c + 4 * q + a + k)"
    using yoe md late mp
    by (auto simp: civil_from_days_def Let_def doe_def [symmetric] e_def [symmetric] k_def)
  have year': "fst (civil_from_days d) + 1 = 400 * e + (100 * c + 4 * q + a + (k + 1))"
    by (simp add: year)
  have this_year: "DayFromYear (400 * e + (100 * c + 4 * q + a + k)) =
      146097 * e + 36524 * c + 1461 * q + 365 * a + 365 * k
        + (a + k + 3) div 4 - (4 * q + a + k + 99) div 100
        + (100 * c + 4 * q + a + k + 399) div 400 - 719528"
    using c q a by (intro march_year_days) (simp_all add: k_def)
  have next_year: "DayFromYear (400 * e + (100 * c + 4 * q + a + (k + 1))) =
      146097 * e + 36524 * c + 1461 * q + 365 * a + 365 * (k + 1)
        + (a + (k + 1) + 3) div 4 - (4 * q + a + (k + 1) + 99) div 100
        + (100 * c + 4 * q + a + (k + 1) + 399) div 400 - 719528"
    using c q a by (intro march_year_days) (simp_all add: k_def)
  have lower: "DayFromYear (400 * e + (100 * c + 4 * q + a + k)) \<le> d"
  proof (cases "doy \<le> 305")
    case True
    then show ?thesis
      unfolding this_year d split using c q a doy by (simp add: k_def; linarith)
  next
    case False
    then show ?thesis
      unfolding this_year d split using c q a doy by (simp add: k_def; linarith)
  qed
  have upper: "d < DayFromYear (400 * e + (100 * c + 4 * q + a + (k + 1)))"
  proof (cases "doy \<le> 305")
    case True
    then show ?thesis
      unfolding next_year d split using c q a doy by (simp add: k_def; linarith)
  next
    case False
    then show ?thesis
      unfolding next_year d split using c q a doy by (simp add: k_def; linarith)
  qed
  show ?thesis
    unfolding year' unfolding year using lower upper by simp
qed

lemma YearFromTime_bounds:
  "DayFromYear (YearFromTime t) \<le> Day t \<and> Day t < DayFromYear (YearFromTime t + 1)"
  unfolding YearFromTime_def by (rule civil_year_is_YearFromTime)

lemma year_step:
  fixes y a a' b b' c c' :: int
  assumes "a \<le> a'" and "b' \<le> b + 1" and "c \<le> c'"
  shows "365 * (y - 1970) + a - b + c < 365 * (y + 1 - 1970) + a' - b' + c'"
proof -
  have "365 * (y + 1 - 1970) = 365 * (y - 1970) + 365"
    by (simp add: algebra_simps)
  with assms show ?thesis
    by simp
qed

lemma DayFromYear_less: "DayFromYear y < DayFromYear (y + 1)"
proof -
  have a: "(y - 1969) div 4 \<le> (y + 1 - 1969) div 4"
    by (intro zdiv_mono1) simp_all
  have "(y + 1 - 1901) div 100 \<le> (y - 1901 + 100) div 100"
    by (intro zdiv_mono1) simp_all
  then have b: "(y + 1 - 1901) div 100 \<le> (y - 1901) div 100 + 1"
    by simp
  have c: "(y - 1601) div 400 \<le> (y + 1 - 1601) div 400"
    by (intro zdiv_mono1) simp_all
  show ?thesis
    unfolding DayFromYear_def using a b c by (rule year_step)
qed

lemma DayFromYear_mono: "y \<le> y' \<Longrightarrow> DayFromYear y \<le> DayFromYear y'"
proof (induction y' rule: int_ge_induct)
  case base
  show ?case by simp
next
  case (step i)
  with DayFromYear_less [of i] show ?case by simp
qed

text \<open>\<open>YearFromTime t\<close> is the largest year whose first day is not after the day of \<open>t\<close>.\<close>

lemma YearFromTime_largest: "(DayFromYear y \<le> Day t) = (y \<le> YearFromTime t)"
proof
  assume first: "DayFromYear y \<le> Day t"
  show "y \<le> YearFromTime t"
  proof (rule ccontr)
    assume "\<not> y \<le> YearFromTime t"
    then have "YearFromTime t + 1 \<le> y"
      by simp
    then have "DayFromYear (YearFromTime t + 1) \<le> DayFromYear y"
      by (rule DayFromYear_mono)
    with first YearFromTime_bounds [of t] show False
      by simp
  qed
next
  assume "y \<le> YearFromTime t"
  then have "DayFromYear y \<le> DayFromYear (YearFromTime t)"
    by (rule DayFromYear_mono)
  with YearFromTime_bounds [of t] show "DayFromYear y \<le> Day t"
    by simp
qed

section \<open>Sending and routing\<close>

lemma ms_of_time_of:
  "- 8640000000000000 \<le> t \<Longrightarrow> t \<le> 8640000000000000 \<Longrightarrow> ms_of (time_of t) = t"
  by (simp add: time_of_inverse)

lemma leap_day_timestamp: "iso_format 1709210096789 = ''2024-02-29T12:34:56.789Z''"
  by code_simp

lemma leap_day_clock:
  "toISOString (clock (leap_day_process e)) = ''2024-02-29T12:34:56.789Z''"
  by (simp add: toISOString_def leap_day_process_def ms_of_time_of leap_day_timestamp)

subsection \<open>Fresh requests\<close>

lemma unconditional_not_fresh: "header q ''if-none-match'' = None \<Longrightarrow> \<not> fresh fw q status pl"
  by (simp add: fresh_def given_def)

lemma any_match_fresh:
  assumes "method q = ''GET''"
    and "header q ''if-none-match'' = Some ''*''"
    and "header q ''cache-control'' = None"
    and "header q ''if-modified-since'' = None"
  shows "fresh fw q 200 pl"
  using assms by (simp add: fresh_def given_def)

lemma send_to_GET:
  assumes "method q = ''GET''"
  shows "send fw q pl \<lparr>statusCode = 200, content_type = Some ct, payload = old\<rparr> =
    (if fresh fw q 200 pl then not_modified
     else \<lparr>statusCode = 200, content_type = Some ct, payload = pl\<rparr>)"
  using assms by (simp add: send_def not_modified_def)

lemma res_json_to_GET:
  assumes "method q = ''GET''"
  shows "res_json fw q obj fresh_res =
    (if fresh fw q 200 (Json obj) then not_modified
     else \<lparr>statusCode = 200, content_type = Some ''application/json; charset=utf-8'',
            payload = Json obj\<rparr>)"
  using send_to_GET [OF assms] by (simp add: res_json_def fresh_res_def)

lemma res_send_to_GET:
  assumes "method q = ''GET''"
  shows "res_send fw q text fresh_res =
    (if fresh fw q 200 (Text text) then not_modified
     else \<lparr>statusCode = 200, content_type = Some ''text/html; charset=utf-8'',
            payload = Text text\<rparr>)"
  using send_to_GET [OF assms] by (simp add: res_send_def fresh_res_def)

subsection \<open>The way of a request to its handler\<close>

lemma path_matches_routes:
  "path_matches ''/'' ''/''"
  "\<not> path_matches ''/'' ''/api/health''"
  "\<not> path_matches ''/'' ''/api/info''"
  "path_matches ''/api/health'' ''/api/health''"
  "\<not> path_matches ''/api/health'' ''/api/info''"
  "path_matches ''/api/info'' ''/api/info''"
  by (simp_all add: path_matches_def lower_def)

lemma passed_on:
  assumes "method q = ''GET''" and "json_fault fw q = None" and "static_file fw q = None"
  shows "first_answer (middleware fw) q = None"
  using assms by (simp add: middleware_def cors_def express_json_def express_static_def)

lemma middleware_answer:
  "first_answer (middleware fw) q =
     (if method q = ''OPTIONS''
      then Some \<lparr>statusCode = 204, content_type = None, payload = Text []\<rparr>
      else case json_fault fw q of
             Some code \<Rightarrow> Some (error_response fw code q)
           | None \<Rightarrow> express_static fw q)"
  by (simp add: middleware_def cors_def express_json_def split: option.splits)

lemma way_to_home:
  assumes "method q = ''GET''" and "path q = ''/''"
  shows "app fw p q =
    (case json_fault fw q of
       Some code \<Rightarrow> error_response fw code q
     | None \<Rightarrow> (case static_file fw q of Some file \<Rightarrow> file | None \<Rightarrow> home fw p q))"
  using assms
  by (simp add: app_def middleware_answer express_static_def routes_def route_matches_def
      path_matches_routes split: option.splits)

lemma way_to_health:
  assumes "method q = ''GET''" and "path q = ''/api/health''"
  shows "app fw p q =
    (case json_fault fw q of
       Some code \<Rightarrow> error_response fw code q
     | None \<Rightarrow> (case static_file fw q of Some file \<Rightarrow> file | None \<Rightarrow> health fw p q))"
  using assms
  by (simp add: app_def middleware_answer express_static_def routes_def route_matches_def
      path_matches_routes split: option.splits)

lemma way_to_info:
  assumes "method q = ''GET''" and "path q = ''/api/info''"
  shows "app fw p q =
    (case json_fault fw q of
       Some code \<Rightarrow> error_response fw code q
     | None \<Rightarrow> (case static_file fw q of Some file \<Rightarrow> file | None \<Rightarrow> info fw p q))"
  using assms
  by (simp add: app_def middleware_answer express_static_def routes_def route_matches_def
      path_matches_routes split: option.splits)

lemma app_home:
  assumes "method q = ''GET''" and "path q = ''/''"
    and "json_fault fw q = None" and "static_file fw q = None"
  shows "app fw p q = home fw p q"
  using assms passed_on [OF assms(1,3,4)]
  by (simp add: app_def routes_def route_matches_def path_matches_routes)

lemma app_health:
  assumes "method q = ''GET''" and "path q = ''/api/health''"
    and "json_fault fw q = None" and "static_file fw q = None"
  shows "app fw p q = health fw p q"
  using assms passed_on [OF assms(1,3,4)]
  by (simp add: app_def routes_def route_matches_def path_matches_routes)

lemma app_info:
  assumes "method q = ''GET''" and "path q = ''/api/info''"
    and "json_fault fw q = None" and "static_file fw q = None"
  shows "app fw p q = info fw p q"
  using assms passed_on [OF assms(1,3,4)]
  by (simp add: app_def routes_def route_matches_def path_matches_routes)

subsection \<open>The small deployment\<close>

lemma bare_express_passes:
  "json_fault bare_express (get a) = None"
  "static_file bare_express (get a) = None"
  "json_fault bare_express (conditional_get a) = None"
  "static_file bare_express (conditional_get a) = None"
  by (simp_all add: bare_express_def get_def conditional_get_def)

lemma get_fields:
  "method (get a) = ''GET''"
  "path (get a) = a"
  "header (get a) name = None"
  by (simp_all add: get_def header_def)

lemma conditional_get_fields:
  "method (conditional_get a) = ''GET''"
  "path (conditional_get a) = a"
  "header (conditional_get a) ''if-none-match'' = Some ''*''"
  "header (conditional_get a) ''cache-control'' = None"
  "header (conditional_get a) ''if-modified-since'' = None"
  by (simp_all add: conditional_get_def header_def)

lemma conditional_get_fresh: "fresh fw (conditional_get a) 200 pl"
  by (rule any_match_fresh) (simp_all add: conditional_get_fields)

lemma get_not_fresh: "\<not> fresh fw (get a) status pl"
  by (rule unconditional_not_fresh) (simp add: get_fields)

lemma leap_day_fields:
  "process_version (leap_day_process e) = ''v18.17.0''"
  "process_uptime (leap_day_process e) = 3 / 2"
  "env (leap_day_process e) = e"
  by (simp_all add: process_version_def process_uptime_def leap_day_process_def)

lemma broken_get_fields:
  "method (broken_get a) = ''GET''"
  "path (broken_get a) = a"
  "json_fault bare_express (broken_get a) = Some 400"
  "json_fault (serving files) (broken_get a) = Some 400"
  by (simp_all add: broken_get_def bare_express_def serving_def)

lemma preflight_fields:
  "method (preflight a) = ''OPTIONS''"
  "path (preflight a) = a"
  by (simp_all add: preflight_def)

lemma serving_passes:
  "json_fault (serving files) (get a) = None"
  "static_file (serving files) (get a) = map_of files a"
  by (simp_all add: serving_def bare_express_def get_def)

lemma elapse_fields:
  "clock (advance (Elapse d) p) = clock p"
  "env (advance (Elapse d) p) = env p"
  "process_version (advance (Elapse d) p) = process_version p"
  "process_uptime (advance (Elapse d) p) = real (up_ns p + d) / 1000000000"
  by (simp_all add: process_uptime_def process_version_def)

lemma leap_day_up_ns: "up_ns (leap_day_process e) = 1500000000"
  by (simp add: leap_day_process_def)

lemma bare_answers:
  "app bare_express p (conditional_get ''/'') = not_modified"
  "app bare_express p (conditional_get ''/api/health'') = not_modified"
  "app bare_express p (conditional_get ''/api/info'') = not_modified"
  "app bare_express p (get ''/'') = home bare_express p (get ''/'')"
  "app bare_express p (get ''/api/health'') = health bare_express p (get ''/api/health'')"
  "app bare_express p (get ''/api/info'') = info bare_express p (get ''/api/info'')"
  "app bare_express p (broken_get ''/'') = error_response bare_express 400 (broken_get ''/'')"
  "app bare_express p (broken_get ''/api/health'')
     = error_response bare_express 400 (broken_get ''/api/health'')"
  "app bare_express p (broken_get ''/api/info'')
     = error_response bare_express 400 (broken_get ''/api/info'')"
  by (simp_all add: way_to_home way_to_health way_to_info get_fields conditional_get_fields
      broken_get_fields bare_express_passes home_def health_def info_def res_send_to_GET
      res_json_to_GET conditional_get_fresh)

lemma served_file:
  "app (serving [(''/'', file)]) p (get ''/'') = file"
  "app (serving [(''/api/health'', file)]) p (get ''/api/health'') = file"
  "app (serving [(''/api/info'', file)]) p (get ''/api/info'') = file"
  by (simp_all add: way_to_home way_to_health way_to_info get_fields serving_passes)

lemma error_response_fields:
  "statusCode (error_response fw code q) = code"
  "content_type (error_response fw code q) = Some ''text/html; charset=utf-8''"
  "json_field (error_response fw code q) k = None"
  by (simp_all add: error_response_def json_field_def)

section \<open>The port\<close>

lemma PORT_unset: "env p ''PORT'' = None \<Longrightarrow> listening (start p) = Inr 3000"
  by (simp add: start_def PORT_def js_or_def)

lemma PORT_empty: "env p ''PORT'' = Some [] \<Longrightarrow> listening (start p) = Inr 3000"
  by (simp add: start_def PORT_def js_or_def)

lemma PORT_set: "env p ''PORT'' = Some v \<Longrightarrow> v \<noteq> [] \<Longrightarrow> listening (start p) = Inl v"
  by (simp add: start_def PORT_def js_or_def)

text \<open>
  C9: a \<^verbatim>\<open>PORT\<close> that is set to the empty string, the falsy value a variable of the
  environment can have, gives port 3000 exactly like a \<^verbatim>\<open>PORT\<close> that is not set; every
  non-empty value, numeric or not, is handed to the listener as the string it is.
\<close>

theorem port_falsy_default:
  "(env p ''PORT'' = Some [] \<longrightarrow> listening (start p) = Inr 3000) \<and>
   (env p ''PORT'' = None \<longrightarrow> listening (start p) = Inr 3000) \<and>
   (\<forall>v. env p ''PORT'' = Some v \<and> v \<noteq> [] \<longrightarrow> listening (start p) = Inl v)"
proof (intro conjI impI allI)
  assume "env p ''PORT'' = Some []"
  then show "listening (start p) = Inr 3000"
    by (rule PORT_empty)
next
  assume "env p ''PORT'' = None"
  then show "listening (start p) = Inr 3000"
    by (rule PORT_unset)
next
  fix v
  assume "env p ''PORT'' = Some v \<and> v \<noteq> []"
  then show "listening (start p) = Inl v"
    by (simp add: PORT_set)
qed

theorem port_falsy_default_witness:
  "env (leap_day_process [''PORT'' \<mapsto> []]) ''PORT'' = Some [] \<and>
   listening (start (leap_day_process [''PORT'' \<mapsto> []])) = Inr 3000 \<and>
   env (leap_day_process Map.empty) ''PORT'' = None \<and>
   listening (start (leap_day_process Map.empty)) = Inr 3000 \<and>
   env (leap_day_process [''PORT'' \<mapsto> ''eighty'']) ''PORT'' = Some ''eighty'' \<and>
   listening (start (leap_day_process [''PORT'' \<mapsto> ''eighty''])) = Inl ''eighty''"
  using port_falsy_default [of "leap_day_process [''PORT'' \<mapsto> []]"]
    port_falsy_default [of "leap_day_process Map.empty"]
    port_falsy_default [of "leap_day_process [''PORT'' \<mapsto> ''eighty'']"]
  by (simp add: leap_day_process_def)

lemma port_8080: "list_all is_digit ''8080''" "number_of ''8080'' = 8080"
  by code_simp+

text \<open>
  C3, as stated, fails: with \<^verbatim>\<open>PORT=abc\<close>, a value that is not numeric, the listener is
  not given 3000 but the string \<^verbatim>\<open>abc\<close>, and does not bind the port 3000.
\<close>

theorem port_non_numeric_counterexample:
  "listening (start (leap_day_process [''PORT'' \<mapsto> ''abc''])) = Inl ''abc'' \<and>
   listening (start (leap_day_process [''PORT'' \<mapsto> ''abc''])) \<noteq> Inr 3000 \<and>
   net_listen (listening (start (leap_day_process [''PORT'' \<mapsto> ''abc''])))
     = Uninterpreted ''abc''"
  by (simp add: start_def PORT_def js_or_def leap_day_process_def net_listen_def is_digit_def)

text \<open>
  C3, amended: the port that the listener binds is taken from \<^verbatim>\<open>PORT\<close> when \<^verbatim>\<open>PORT\<close> is
  set to a value that is not empty: every such value is handed to the listener as it is,
  so a decimal number from 1 to 65535 binds that port (\<^verbatim>\<open>PORT=8080\<close> binds 8080, not 3000).
  The default 3000 is bound exactly when \<^verbatim>\<open>PORT\<close> is not set or empty; a value that is
  not a decimal number is not replaced by 3000 but reaches the listener as it is.
\<close>

theorem port_from_environment:
  "((listening (start p) = Inr 3000) = (env p ''PORT'' = None \<or> env p ''PORT'' = Some [])) \<and>
   (listening (start p) = Inr 3000 \<longrightarrow> net_listen (listening (start p)) = Port 3000) \<and>
   (\<forall>v. env p ''PORT'' = Some v \<and> v \<noteq> [] \<longrightarrow> listening (start p) = Inl v) \<and>
   (\<forall>v. env p ''PORT'' = Some v \<and> v \<noteq> [] \<and> list_all is_digit v \<and>
        1 \<le> number_of v \<and> number_of v \<le> 65535 \<longrightarrow>
      net_listen (listening (start p)) = Port (nat (number_of v))) \<and>
   (env p ''PORT'' = Some ''8080'' \<longrightarrow>
      net_listen (listening (start p)) = Port 8080 \<and>
      net_listen (listening (start p)) \<noteq> Port 3000) \<and>
   (\<forall>v. env p ''PORT'' = Some v \<and> \<not> list_all is_digit v \<longrightarrow>
      listening (start p) = Inl v \<and> net_listen (listening (start p)) = Uninterpreted v)"
proof (intro conjI allI impI)
  show "(listening (start p) = Inr 3000) = (env p ''PORT'' = None \<or> env p ''PORT'' = Some [])"
  proof (cases "env p ''PORT''")
    case None
    then show ?thesis
      by (simp add: PORT_unset)
  next
    case (Some v)
    then show ?thesis
      by (cases "v = []") (simp_all add: PORT_empty PORT_set)
  qed
next
  assume "listening (start p) = Inr 3000"
  then show "net_listen (listening (start p)) = Port 3000"
    by (simp add: net_listen_def port_binding_def)
next
  fix v
  assume "env p ''PORT'' = Some v \<and> v \<noteq> []"
  then show "listening (start p) = Inl v"
    by (simp add: PORT_set)
next
  fix v
  assume "env p ''PORT'' = Some v \<and> v \<noteq> [] \<and> list_all is_digit v \<and>
    1 \<le> number_of v \<and> number_of v \<le> 65535"
  then show "net_listen (listening (start p)) = Port (nat (number_of v))"
    by (simp add: PORT_set net_listen_def port_binding_def)
next
  assume "env p ''PORT'' = Some ''8080''"
  then have "listening (start p) = Inl ''8080''"
    by (simp add: PORT_set)
  then show "net_listen (listening (start p)) = Port 8080"
    by (simp add: net_listen_def port_binding_def port_8080 is_digit_def)
  then show "net_listen (listening (start p)) \<noteq> Port 3000"
    by simp
next
  fix v
  assume v: "env p ''PORT'' = Some v \<and> \<not> list_all is_digit v"
  then have "v \<noteq> []"
    by auto
  with v show "listening (start p) = Inl v"
    by (simp add: PORT_set)
  with v show "net_listen (listening (start p)) = Uninterpreted v"
    by (simp add: net_listen_def)
qed

theorem port_from_environment_witness:
  "env (leap_day_process [''PORT'' \<mapsto> ''8080'']) ''PORT'' = Some ''8080'' \<and>
   listening (start (leap_day_process [''PORT'' \<mapsto> ''8080''])) = Inl ''8080'' \<and>
   net_listen (listening (start (leap_day_process [''PORT'' \<mapsto> ''8080'']))) = Port 8080 \<and>
   env (leap_day_process Map.empty) ''PORT'' = None \<and>
   net_listen (listening (start (leap_day_process Map.empty))) = Port 3000 \<and>
   env (leap_day_process [''PORT'' \<mapsto> ''abc'']) ''PORT'' = Some ''abc'' \<and>
   \<not> list_all is_digit ''abc'' \<and>
   net_listen (listening (start (leap_day_process [''PORT'' \<mapsto> ''abc''])))
     = Uninterpreted ''abc''"
  using port_from_environment [of "leap_day_process [''PORT'' \<mapsto> ''8080'']"]
    port_from_environment [of "leap_day_process Map.empty"]
    port_from_environment [of "leap_day_process [''PORT'' \<mapsto> ''abc'']"]
  by (simp add: leap_day_process_def is_digit_def start_def PORT_def js_or_def net_listen_def
      port_binding_def port_8080)

section \<open>The three routes\<close>

text \<open>
  In the theorems of this section \<open>q\<close> is a request with the method \<^verbatim>\<open>GET\<close> and the path of
  a route, and \<open>p\<close> is the process at the moment of the request. Before the request
  reaches its route, the body parser may reject it, and the static directory may hold a
  file for its path.
\<close>

lemma node_env_cases:
  "node_env e =
     (case e ''NODE_ENV'' of None \<Rightarrow> ''development''
      | Some v \<Rightarrow> if v = [] then ''development'' else v)"
  by (simp add: node_env_def js_or_def split: option.splits)

subsection \<open>Pieces of the home page\<close>

lemma sublist_concat_slice: "sublist (concat (take n (drop k xss))) (concat xss)"
proof -
  have "take k xss @ take n (drop k xss) @ drop n (drop k xss) = xss"
    by (simp only: append_take_drop_id)
  then have "concat (take k xss) @ concat (take n (drop k xss)) @ concat (drop n (drop k xss))
      = concat xss"
    by (simp only: concat_append [symmetric])
  then show ?thesis
    by (metis sublist_appendI)
qed

lemma sublist_of_slice:
  assumes "sublist s (concat (take n (drop k (home_lines v e t))))"
  shows "sublist s (home_page v e t)"
  using assms sublist_concat_slice [of n k "home_lines v e t"]
  unfolding home_page_def by (rule sublist_order.order_trans)

lemma home_page_title: "sublist ''Simple Blog App'' (home_page v e t)"
proof (rule sublist_of_slice)
  have "concat (take 1 (drop 6 (home_lines v e t))) =
      ''            <title>'' @ ''Simple Blog App'' @ ''</title>\<newline>''"
    by (simp add: home_lines_def)
  then show "sublist ''Simple Blog App'' (concat (take 1 (drop 6 (home_lines v e t))))"
    by (simp only: sublist_appendI)
qed

lemma home_page_version:
  "sublist (''<p><strong>Node.js Version:</strong> '' @ v @ ''</p>'') (home_page v e t)"
proof (rule sublist_of_slice)
  have "concat (take 3 (drop 28 (home_lines v e t))) =
      ''                    '' @ (''<p><strong>Node.js Version:</strong> '' @ v @ ''</p>'')
        @ ''\<newline>''"
    by (simp add: home_lines_def)
  then show "sublist (''<p><strong>Node.js Version:</strong> '' @ v @ ''</p>'')
      (concat (take 3 (drop 28 (home_lines v e t))))"
    by (simp only: sublist_appendI)
qed

lemma home_page_environment:
  "sublist (''<p><strong>Environment:</strong> '' @ e @ ''</p>'') (home_page v e t)"
proof (rule sublist_of_slice)
  have "concat (take 3 (drop 31 (home_lines v e t))) =
      ''                    '' @ (''<p><strong>Environment:</strong> '' @ e @ ''</p>'')
        @ ''\<newline>''"
    by (simp add: home_lines_def)
  then show "sublist (''<p><strong>Environment:</strong> '' @ e @ ''</p>'')
      (concat (take 3 (drop 31 (home_lines v e t))))"
    by (simp only: sublist_appendI)
qed

lemma home_page_timestamp:
  "sublist (''<p><strong>Timestamp:</strong> '' @ t @ ''</p>'') (home_page v e t)"
proof (rule sublist_of_slice)
  have "concat (take 3 (drop 34 (home_lines v e t))) =
      ''                    '' @ (''<p><strong>Timestamp:</strong> '' @ t @ ''</p>'')
        @ ''\<newline>''"
    by (simp add: home_lines_def)
  then show "sublist (''<p><strong>Timestamp:</strong> '' @ t @ ''</p>'')
      (concat (take 3 (drop 34 (home_lines v e t))))"
    by (simp only: sublist_appendI)
qed

subsection \<open>What each handler answers\<close>

lemma home_answer:
  assumes "method q = ''GET''"
  shows "home fw p q =
    (if fresh fw q 200 (Text (home_page (process_version p) (node_env (env p))
          (toISOString (clock p))))
     then not_modified
     else \<lparr>statusCode = 200, content_type = Some ''text/html; charset=utf-8'',
            payload = Text (home_page (process_version p) (node_env (env p))
              (toISOString (clock p)))\<rparr>)"
  by (simp only: home_def res_send_to_GET [OF assms])

lemma health_answer:
  assumes "method q = ''GET''"
  shows "health fw p q =
    (if fresh fw q 200 (Json [(''status'', JString ''healthy''),
          (''timestamp'', JString (toISOString (clock p))),
          (''uptime'', JNumber (process_uptime p))])
     then not_modified
     else \<lparr>statusCode = 200, content_type = Some ''application/json; charset=utf-8'',
            payload = Json [(''status'', JString ''healthy''),
              (''timestamp'', JString (toISOString (clock p))),
              (''uptime'', JNumber (process_uptime p))]\<rparr>)"
  by (simp only: health_def res_json_to_GET [OF assms])

lemma info_answer:
  assumes "method q = ''GET''"
  shows "info fw p q =
    (if fresh fw q 200 (Json [(''status'', JString ''success''),
          (''message'', JString ''Simple Blog App Node.js Application''),
          (''version'', JString ''1.0.0''),
          (''node_version'', JString (process_version p)),
          (''environment'', JString (node_env (env p))),
          (''timestamp'', JString (toISOString (clock p)))])
     then not_modified
     else \<lparr>statusCode = 200, content_type = Some ''application/json; charset=utf-8'',
            payload = Json [(''status'', JString ''success''),
              (''message'', JString ''Simple Blog App Node.js Application''),
              (''version'', JString ''1.0.0''),
              (''node_version'', JString (process_version p)),
              (''environment'', JString (node_env (env p))),
              (''timestamp'', JString (toISOString (clock p)))]\<rparr>)"
  by (simp only: info_def res_json_to_GET [OF assms])

lemma not_modified_fields:
  "json_field not_modified k = None"
  "payload not_modified = Text []"
  "statusCode not_modified = 304"
  "content_type not_modified = None"
  by (simp_all add: not_modified_def json_field_def)

subsection \<open>The home page\<close>

text \<open>
  C7, as stated, fails, in three ways. A conditional request to \<^verbatim>\<open>GET /\<close> with
  \<^verbatim>\<open>If-None-Match: *\<close> is fresh and is answered with status 304, without \<^verbatim>\<open>Content-Type\<close> and
  without the page. A request to \<^verbatim>\<open>GET /\<close> whose JSON body does not parse is answered with
  status 400. And when the static directory holds an index file, the file is the answer,
  not the page of the handler.
\<close>

theorem home_conditional_counterexample:
  "statusCode (app bare_express (leap_day_process Map.empty) (conditional_get ''/'')) = 304 \<and>
   content_type (app bare_express (leap_day_process Map.empty) (conditional_get ''/'')) = None \<and>
   payload (app bare_express (leap_day_process Map.empty) (conditional_get ''/'')) = Text [] \<and>
   \<not> sublist ''Simple Blog App'' [] \<and>
   statusCode (app bare_express (leap_day_process Map.empty) (broken_get ''/'')) = 400 \<and>
   app (serving [(''/'', file_response ''text/html; charset=UTF-8'' ''<h1>Static</h1>'')])
       (leap_day_process Map.empty) (get ''/'')
     = file_response ''text/html; charset=UTF-8'' ''<h1>Static</h1>''"
  by (simp add: bare_answers served_file not_modified_fields error_response_fields)

text \<open>
  C7, amended: a \<^verbatim>\<open>GET\<close> request with the path \<^verbatim>\<open>/\<close> is answered with the error of the body
  parser when the parser rejects its body; otherwise with the file of the static
  directory for the path, when there is one; otherwise, when it is a fresh conditional
  request, with 304 and no body; and otherwise with status 200, \<^verbatim>\<open>Content-Type\<close>
  \<^verbatim>\<open>text/html\<close> and the page of the template. The page contains the text
  \<^verbatim>\<open>Simple Blog App\<close>, and the version of the runtime, the value of \<^verbatim>\<open>NODE_ENV\<close>
  (\<^verbatim>\<open>development\<close> when it is not set or empty) and the current timestamp stand in it after
  their labels. A request without \<^verbatim>\<open>If-None-Match\<close> is never fresh.
\<close>

theorem home_response:
  assumes "method q = ''GET''" and "path q = ''/''"
  shows
    "let name = (case env p ''NODE_ENV'' of None \<Rightarrow> ''development''
                 | Some v \<Rightarrow> if v = [] then ''development'' else v);
         page = home_page (process_version p) name (toISOString (clock p))
     in app fw p q =
          (case json_fault fw q of
             Some code \<Rightarrow> error_response fw code q
           | None \<Rightarrow>
               (case static_file fw q of
                  Some file \<Rightarrow> file
                | None \<Rightarrow>
                    if fresh fw q 200 (Text page) then not_modified
                    else \<lparr>statusCode = 200, content_type = Some ''text/html; charset=utf-8'',
                           payload = Text page\<rparr>)) \<and>
        (header q ''if-none-match'' = None \<longrightarrow> \<not> fresh fw q 200 (Text page)) \<and>
        sublist ''Simple Blog App'' page \<and>
        sublist (''<p><strong>Node.js Version:</strong> '' @ process_version p @ ''</p>'') page \<and>
        sublist (''<p><strong>Environment:</strong> '' @ name @ ''</p>'') page \<and>
        sublist (''<p><strong>Timestamp:</strong> '' @ toISOString (clock p) @ ''</p>'') page \<and>
        is_iso8601 (toISOString (clock p))"
proof -
  define name where "name = (case env p ''NODE_ENV'' of None \<Rightarrow> ''development''
    | Some v \<Rightarrow> if v = [] then ''development'' else v)"
  define page where "page = home_page (process_version p) name (toISOString (clock p))"
  have "home fw p q = res_send fw q page fresh_res"
    by (simp add: home_def page_def name_def node_env_cases)
  then have "home fw p q =
      (if fresh fw q 200 (Text page) then not_modified
       else \<lparr>statusCode = 200, content_type = Some ''text/html; charset=utf-8'',
              payload = Text page\<rparr>)"
    by (simp only: res_send_to_GET [OF assms(1)])
  then have answer: "app fw p q =
      (case json_fault fw q of
         Some code \<Rightarrow> error_response fw code q
       | None \<Rightarrow>
           (case static_file fw q of
              Some file \<Rightarrow> file
            | None \<Rightarrow>
                if fresh fw q 200 (Text page) then not_modified
                else \<lparr>statusCode = 200, content_type = Some ''text/html; charset=utf-8'',
                       payload = Text page\<rparr>))"
    by (simp only: way_to_home [OF assms])
  have stale: "header q ''if-none-match'' = None \<longrightarrow> \<not> fresh fw q 200 (Text page)"
    by (simp add: unconditional_not_fresh)
  show ?thesis
    unfolding Let_def name_def [symmetric] page_def [symmetric]
    using answer stale unfolding page_def
    by (intro conjI home_page_title home_page_version home_page_environment
        home_page_timestamp toISOString_is_iso8601)
qed

theorem home_response_witness:
  "method (get ''/'') = ''GET'' \<and> path (get ''/'') = ''/'' \<and>
   app bare_express (leap_day_process [''NODE_ENV'' \<mapsto> ''production'']) (get ''/'') =
     \<lparr>statusCode = 200, content_type = Some ''text/html; charset=utf-8'',
      payload = Text (home_page ''v18.17.0'' ''production'' ''2024-02-29T12:34:56.789Z'')\<rparr> \<and>
   sublist ''<p><strong>Environment:</strong> production</p>''
     (home_page ''v18.17.0'' ''production'' ''2024-02-29T12:34:56.789Z'')"
  using home_response [of "get ''/''" "leap_day_process [''NODE_ENV'' \<mapsto> ''production'']"
      bare_express]
  by (simp add: Let_def get_fields bare_express_passes get_not_fresh leap_day_fields
      leap_day_clock)

subsection \<open>The health check\<close>

text \<open>
  C2, as stated, fails, in three ways. A conditional request to \<^verbatim>\<open>GET /api/health\<close> with
  \<^verbatim>\<open>If-None-Match: *\<close> is answered with status 304, without \<^verbatim>\<open>Content-Type\<close> and with an empty
  body. A request to \<^verbatim>\<open>GET /api/health\<close> whose JSON body does not parse is answered with
  status 400 and an HTML page. And when the static directory holds a file for the path,
  the file is the answer.
\<close>

theorem health_conditional_counterexample:
  "statusCode (app bare_express (leap_day_process Map.empty) (conditional_get ''/api/health''))
     = 304 \<and>
   content_type (app bare_express (leap_day_process Map.empty) (conditional_get ''/api/health''))
     = None \<and>
   payload (app bare_express (leap_day_process Map.empty) (conditional_get ''/api/health''))
     = Text [] \<and>
   statusCode (app bare_express (leap_day_process Map.empty) (broken_get ''/api/health''))
     = 400 \<and>
   content_type (app bare_express (leap_day_process Map.empty) (broken_get ''/api/health''))
     = Some ''text/html; charset=utf-8'' \<and>
   app (serving [(''/api/health'', file_response ''application/octet-stream'' ''down'')])
       (leap_day_process Map.empty) (get ''/api/health'')
     = file_response ''application/octet-stream'' ''down''"
  by (simp add: bare_answers served_file not_modified_fields error_response_fields)

text \<open>
  C2, amended: a \<^verbatim>\<open>GET\<close> request with the path \<^verbatim>\<open>/api/health\<close> is answered with the error of
  the body parser when the parser rejects its body; otherwise with the file of the static
  directory for the path, when there is one; otherwise, when it is a fresh conditional
  request, with 304 and no body; and otherwise with status 200 and a JSON \<^verbatim>\<open>Content-Type\<close>,
  and the object of the body has exactly the keys \<^verbatim>\<open>status\<close>, with the value \<^verbatim>\<open>healthy\<close>,
  \<^verbatim>\<open>timestamp\<close>, a valid ISO 8601 string, and \<^verbatim>\<open>uptime\<close>, a number that is not negative. A
  request without \<^verbatim>\<open>If-None-Match\<close> is never fresh.
\<close>

theorem health_response:
  assumes "method q = ''GET''" and "path q = ''/api/health''"
  shows
    "let answer = Json [(''status'', JString ''healthy''),
                        (''timestamp'', JString (toISOString (clock p))),
                        (''uptime'', JNumber (process_uptime p))]
     in app fw p q =
          (case json_fault fw q of
             Some code \<Rightarrow> error_response fw code q
           | None \<Rightarrow>
               (case static_file fw q of
                  Some file \<Rightarrow> file
                | None \<Rightarrow>
                    if fresh fw q 200 answer then not_modified
                    else \<lparr>statusCode = 200,
                           content_type = Some ''application/json; charset=utf-8'',
                           payload = answer\<rparr>)) \<and>
        (header q ''if-none-match'' = None \<longrightarrow> \<not> fresh fw q 200 answer) \<and>
        is_iso8601 (toISOString (clock p)) \<and>
        0 \<le> process_uptime p"
  by (simp add: Let_def way_to_health [OF assms] health_def res_json_to_GET [OF assms(1)]
      unconditional_not_fresh toISOString_is_iso8601 process_uptime_def split: option.splits)

theorem health_response_witness:
  "method (get ''/api/health'') = ''GET'' \<and> path (get ''/api/health'') = ''/api/health'' \<and>
   app bare_express (leap_day_process Map.empty) (get ''/api/health'') =
     \<lparr>statusCode = 200, content_type = Some ''application/json; charset=utf-8'',
      payload = Json [(''status'', JString ''healthy''),
                      (''timestamp'', JString ''2024-02-29T12:34:56.789Z''),
                      (''uptime'', JNumber (3 / 2))]\<rparr> \<and>
   is_iso8601 ''2024-02-29T12:34:56.789Z''"
  using health_response [of "get ''/api/health''" "leap_day_process Map.empty" bare_express]
  by (simp add: Let_def get_fields bare_express_passes get_not_fresh leap_day_fields
      leap_day_clock)

subsection \<open>The info endpoint\<close>

text \<open>
  C1, as stated, fails, in three ways. The body of the answer to a conditional request to
  \<^verbatim>\<open>GET /api/info\<close> with \<^verbatim>\<open>If-None-Match: *\<close> is empty, not the JSON object. The answer to a
  request to \<^verbatim>\<open>GET /api/info\<close> whose JSON body does not parse is the error page of the
  framework, with status 400. And when the static directory holds a file for the path,
  the file is the answer.
\<close>

theorem info_conditional_counterexample:
  "payload (app bare_express (leap_day_process Map.empty) (conditional_get ''/api/info''))
     = Text [] \<and>
   json_field (app bare_express (leap_day_process Map.empty) (conditional_get ''/api/info''))
     ''status'' = None \<and>
   statusCode (app bare_express (leap_day_process Map.empty) (broken_get ''/api/info''))
     = 400 \<and>
   json_field (app bare_express (leap_day_process Map.empty) (broken_get ''/api/info''))
     ''status'' = None \<and>
   app (serving [(''/api/info'', file_response ''application/octet-stream'' ''about'')])
       (leap_day_process Map.empty) (get ''/api/info'')
     = file_response ''application/octet-stream'' ''about''"
  by (simp add: bare_answers served_file not_modified_fields error_response_fields)

text \<open>
  C1, amended: a \<^verbatim>\<open>GET\<close> request with the path \<^verbatim>\<open>/api/info\<close> is answered with the error of
  the body parser when the parser rejects its body; otherwise with the file of the static
  directory for the path, when there is one; otherwise, when it is a fresh conditional
  request, with 304 and no body; and otherwise the body of the answer is the JSON object
  with exactly the six keys \<^verbatim>\<open>status\<close>, \<^verbatim>\<open>message\<close>, \<^verbatim>\<open>version\<close>, \<^verbatim>\<open>node_version\<close>,
  \<^verbatim>\<open>environment\<close> and \<^verbatim>\<open>timestamp\<close>: three constants, the version of the runtime, which
  starts with \<^verbatim>\<open>v\<close>, the value of \<^verbatim>\<open>NODE_ENV\<close> (\<^verbatim>\<open>development\<close> when it is not set or
  empty), and a valid ISO 8601 string. A request without \<^verbatim>\<open>If-None-Match\<close> is never fresh.
\<close>

theorem info_response:
  assumes "method q = ''GET''" and "path q = ''/api/info''"
  shows
    "let name = (case env p ''NODE_ENV'' of None \<Rightarrow> ''development''
                 | Some v \<Rightarrow> if v = [] then ''development'' else v);
         answer = Json [(''status'', JString ''success''),
                        (''message'', JString ''Simple Blog App Node.js Application''),
                        (''version'', JString ''1.0.0''),
                        (''node_version'', JString (process_version p)),
                        (''environment'', JString name),
                        (''timestamp'', JString (toISOString (clock p)))]
     in app fw p q =
          (case json_fault fw q of
             Some code \<Rightarrow> error_response fw code q
           | None \<Rightarrow>
               (case static_file fw q of
                  Some file \<Rightarrow> file
                | None \<Rightarrow>
                    if fresh fw q 200 answer then not_modified
                    else \<lparr>statusCode = 200,
                           content_type = Some ''application/json; charset=utf-8'',
                           payload = answer\<rparr>)) \<and>
        (header q ''if-none-match'' = None \<longrightarrow> \<not> fresh fw q 200 answer) \<and>
        prefix ''v'' (process_version p) \<and>
        is_iso8601 (toISOString (clock p))"
  by (simp add: Let_def way_to_info [OF assms] info_def res_json_to_GET [OF assms(1)]
      unconditional_not_fresh toISOString_is_iso8601 process_version_def node_env_cases
      split: option.splits)

theorem info_response_witness:
  "method (get ''/api/info'') = ''GET'' \<and> path (get ''/api/info'') = ''/api/info'' \<and>
   app bare_express (leap_day_process [''NODE_ENV'' \<mapsto> ''production'']) (get ''/api/info'') =
     \<lparr>statusCode = 200, content_type = Some ''application/json; charset=utf-8'',
      payload = Json [(''status'', JString ''success''),
                      (''message'', JString ''Simple Blog App Node.js Application''),
                      (''version'', JString ''1.0.0''),
                      (''node_version'', JString ''v18.17.0''),
                      (''environment'', JString ''production''),
                      (''timestamp'', JString ''2024-02-29T12:34:56.789Z'')]\<rparr>"
  using info_response
    [of "get ''/api/info''" "leap_day_process [''NODE_ENV'' \<mapsto> ''production'']" bare_express]
  by (simp add: Let_def get_fields bare_express_passes get_not_fresh leap_day_fields
      leap_day_clock)

subsection \<open>The default environment name\<close>

text \<open>
  C5, as stated, fails, in three ways. While \<^verbatim>\<open>NODE_ENV\<close> is not set, the answers to
  conditional requests with \<^verbatim>\<open>If-None-Match: *\<close> to \<^verbatim>\<open>GET /api/info\<close> and to \<^verbatim>\<open>GET /\<close> have
  no body, so they report no environment. The answer to a request to \<^verbatim>\<open>GET /api/info\<close>
  whose JSON body does not parse is the error page of the framework. And when the static
  directory holds an index file, the file is the answer to \<^verbatim>\<open>GET /\<close>.
\<close>

theorem environment_conditional_counterexample:
  "env (leap_day_process Map.empty) ''NODE_ENV'' = None \<and>
   json_field (app bare_express (leap_day_process Map.empty) (conditional_get ''/api/info''))
     ''environment'' = None \<and>
   payload (app bare_express (leap_day_process Map.empty) (conditional_get ''/'')) = Text [] \<and>
   json_field (app bare_express (leap_day_process Map.empty) (broken_get ''/api/info''))
     ''environment'' = None \<and>
   payload (app (serving [(''/'', file_response ''text/html; charset=UTF-8'' ''<h1>Static</h1>'')])
       (leap_day_process Map.empty) (get ''/''))
     = Text ''<h1>Static</h1>''"
  by (simp add: bare_answers served_file not_modified_fields error_response_fields
      leap_day_fields file_response_def)

text \<open>
  C5, amended: while \<^verbatim>\<open>NODE_ENV\<close> is not set, a \<^verbatim>\<open>GET\<close> request with the path \<^verbatim>\<open>/api/info\<close>
  or \<^verbatim>\<open>/\<close> is answered with the error of the body parser when the parser rejects its
  body; otherwise with the file of the static directory for the path, when there is one;
  otherwise, when it is a fresh conditional request, with 304 and no body; and otherwise
  with the JSON object whose \<^verbatim>\<open>environment\<close> is \<^verbatim>\<open>development\<close>, or with the page whose
  environment line reads \<^verbatim>\<open>development\<close>. A request without \<^verbatim>\<open>If-None-Match\<close> is never
  fresh.
\<close>

theorem environment_defaults_to_development:
  assumes "env p ''NODE_ENV'' = None" and "method q = ''GET''"
  shows
    "let answer = Json [(''status'', JString ''success''),
                        (''message'', JString ''Simple Blog App Node.js Application''),
                        (''version'', JString ''1.0.0''),
                        (''node_version'', JString (process_version p)),
                        (''environment'', JString ''development''),
                        (''timestamp'', JString (toISOString (clock p)))];
         page = home_page (process_version p) ''development'' (toISOString (clock p))
     in (path q = ''/api/info'' \<longrightarrow>
           app fw p q =
             (case json_fault fw q of
                Some code \<Rightarrow> error_response fw code q
              | None \<Rightarrow>
                  (case static_file fw q of
                     Some file \<Rightarrow> file
                   | None \<Rightarrow>
                       if fresh fw q 200 answer then not_modified
                       else \<lparr>statusCode = 200,
                              content_type = Some ''application/json; charset=utf-8'',
                              payload = answer\<rparr>))) \<and>
        (path q = ''/'' \<longrightarrow>
           app fw p q =
             (case json_fault fw q of
                Some code \<Rightarrow> error_response fw code q
              | None \<Rightarrow>
                  (case static_file fw q of
                     Some file \<Rightarrow> file
                   | None \<Rightarrow>
                       if fresh fw q 200 (Text page) then not_modified
                       else \<lparr>statusCode = 200,
                              content_type = Some ''text/html; charset=utf-8'',
                              payload = Text page\<rparr>))) \<and>
        (header q ''if-none-match'' = None \<longrightarrow>
           \<not> fresh fw q 200 answer \<and> \<not> fresh fw q 200 (Text page)) \<and>
        sublist (''<p><strong>Environment:</strong> '' @ ''development'' @ ''</p>'') page"
proof -
  define answer where "answer = Json [(''status'', JString ''success''),
    (''message'', JString ''Simple Blog App Node.js Application''),
    (''version'', JString ''1.0.0''),
    (''node_version'', JString (process_version p)),
    (''environment'', JString ''development''),
    (''timestamp'', JString (toISOString (clock p)))]"
  define page where "page = home_page (process_version p) ''development'' (toISOString (clock p))"
  have name: "node_env (env p) = ''development''"
    using assms(1) by (simp add: node_env_cases)
  have info: "info fw p q =
      (if fresh fw q 200 answer then not_modified
       else \<lparr>statusCode = 200, content_type = Some ''application/json; charset=utf-8'',
              payload = answer\<rparr>)"
    unfolding answer_def by (simp only: info_answer [OF assms(2)] name)
  have home: "home fw p q =
      (if fresh fw q 200 (Text page) then not_modified
       else \<lparr>statusCode = 200, content_type = Some ''text/html; charset=utf-8'',
              payload = Text page\<rparr>)"
    unfolding page_def by (simp only: home_answer [OF assms(2)] name)
  have first: "path q = ''/api/info'' \<longrightarrow>
      app fw p q =
        (case json_fault fw q of
           Some code \<Rightarrow> error_response fw code q
         | None \<Rightarrow>
             (case static_file fw q of
                Some file \<Rightarrow> file
              | None \<Rightarrow>
                  if fresh fw q 200 answer then not_modified
                  else \<lparr>statusCode = 200,
                         content_type = Some ''application/json; charset=utf-8'',
                         payload = answer\<rparr>))"
  proof
    assume "path q = ''/api/info''"
    from way_to_info [OF assms(2) this] show "app fw p q =
        (case json_fault fw q of
           Some code \<Rightarrow> error_response fw code q
         | None \<Rightarrow>
             (case static_file fw q of
                Some file \<Rightarrow> file
              | None \<Rightarrow>
                  if fresh fw q 200 answer then not_modified
                  else \<lparr>statusCode = 200,
                         content_type = Some ''application/json; charset=utf-8'',
                         payload = answer\<rparr>))"
      by (simp only: info)
  qed
  have second: "path q = ''/'' \<longrightarrow>
      app fw p q =
        (case json_fault fw q of
           Some code \<Rightarrow> error_response fw code q
         | None \<Rightarrow>
             (case static_file fw q of
                Some file \<Rightarrow> file
              | None \<Rightarrow>
                  if fresh fw q 200 (Text page) then not_modified
                  else \<lparr>statusCode = 200,
                         content_type = Some ''text/html; charset=utf-8'',
                         payload = Text page\<rparr>))"
  proof
    assume "path q = ''/''"
    from way_to_home [OF assms(2) this] show "app fw p q =
        (case json_fault fw q of
           Some code \<Rightarrow> error_response fw code q
         | None \<Rightarrow>
             (case static_file fw q of
                Some file \<Rightarrow> file
              | None \<Rightarrow>
                  if fresh fw q 200 (Text page) then not_modified
                  else \<lparr>statusCode = 200,
                         content_type = Some ''text/html; charset=utf-8'',
                         payload = Text page\<rparr>))"
      by (simp only: home)
  qed
  have third: "header q ''if-none-match'' = None \<longrightarrow>
      \<not> fresh fw q 200 answer \<and> \<not> fresh fw q 200 (Text page)"
    by (simp add: unconditional_not_fresh)
  have fourth: "sublist (''<p><strong>Environment:</strong> '' @ ''development'' @ ''</p>'') page"
    unfolding page_def by (rule home_page_environment)
  show ?thesis
    unfolding Let_def answer_def [symmetric] page_def [symmetric]
    using first second third fourth by (intro conjI)
qed

theorem environment_defaults_to_development_witness:
  "env (leap_day_process Map.empty) ''NODE_ENV'' = None \<and>
   method (get ''/api/info'') = ''GET'' \<and> method (get ''/'') = ''GET'' \<and>
   json_field (app bare_express (leap_day_process Map.empty) (get ''/api/info''))
     ''environment'' = Some (JString ''development'') \<and>
   payload (app bare_express (leap_day_process Map.empty) (get ''/'')) =
     Text (home_page ''v18.17.0'' ''development'' ''2024-02-29T12:34:56.789Z'')"
  using environment_defaults_to_development
      [of "leap_day_process Map.empty" "get ''/api/info''" bare_express]
    environment_defaults_to_development
      [of "leap_day_process Map.empty" "get ''/''" bare_express]
  by (simp add: Let_def get_fields bare_express_passes get_not_fresh leap_day_fields
      leap_day_clock json_field_def)

section \<open>Requests that match no route\<close>

lemma lower_slash_paths:
  "map lower ''/'' = ''/''"
  "map lower ''/api/health'' = ''/api/health''"
  "map lower ''/api/info'' = ''/api/info''"
  by (simp_all add: lower_def)

lemma path_matches_iff:
  "path_matches ''/'' s = (map lower s = ''/'' \<or> map lower s = [])"
  "path_matches ''/api/health'' s = (map lower s = ''/api/health'' \<or> map lower s = ''/api/health/'')"
  "path_matches ''/api/info'' s = (map lower s = ''/api/info'' \<or> map lower s = ''/api/info/'')"
  unfolding path_matches_def Let_def lower_slash_paths by simp_all

lemma sent_status: "statusCode res \<noteq> 404 \<Longrightarrow> statusCode (send fw q pl res) \<noteq> 404"
  by (simp add: send_def Let_def)

lemma handler_status:
  "statusCode (home fw p q) \<noteq> 404"
  "statusCode (health fw p q) \<noteq> 404"
  "statusCode (info fw p q) \<noteq> 404"
  by (simp_all add: home_def health_def info_def res_send_def res_json_def sent_status
      fresh_res_def)

lemma router:
  "find (\<lambda>(r, h). route_matches r q) routes =
     (if (method q = ''GET'' \<or> method q = ''HEAD'') \<and> map lower (path q) \<in> {[], ''/''}
      then Some ((''GET'', ''/''), home)
      else if (method q = ''GET'' \<or> method q = ''HEAD'') \<and>
        map lower (path q) \<in> {''/api/health'', ''/api/health/''}
      then Some ((''GET'', ''/api/health''), health)
      else if (method q = ''GET'' \<or> method q = ''HEAD'') \<and>
        map lower (path q) \<in> {''/api/info'', ''/api/info/''}
      then Some ((''GET'', ''/api/info''), info)
      else None)"
  by (auto simp: routes_def route_matches_def path_matches_iff)

text \<open>
  C8, as stated, fails, in three ways. The path \<^verbatim>\<open>/api/health/\<close> is none of the three
  paths and no file of the static directory answers it, yet the router matches it to the
  health route, and the answer is the 200 of the handler; so it is with \<^verbatim>\<open>/API/HEALTH\<close>. A
  preflight, a request with the method \<^verbatim>\<open>OPTIONS\<close>, to a path that is none of the three
  is answered by \<^verbatim>\<open>cors()\<close> with 204. And a request to such a path whose JSON body does
  not parse is answered with 400.
\<close>

theorem trailing_slash_counterexample:
  "path (get ''/api/health/'') \<noteq> ''/'' \<and> path (get ''/api/health/'') \<noteq> ''/api/health'' \<and>
   path (get ''/api/health/'') \<noteq> ''/api/info'' \<and>
   static_file bare_express (get ''/api/health/'') = None \<and>
   statusCode (app bare_express (leap_day_process Map.empty) (get ''/api/health/'')) = 200 \<and>
   json_field (app bare_express (leap_day_process Map.empty) (get ''/api/health/'')) ''status''
     = Some (JString ''healthy'') \<and>
   statusCode (app bare_express (leap_day_process Map.empty) (get ''/API/HEALTH'')) = 200 \<and>
   statusCode (app bare_express (leap_day_process Map.empty) (preflight ''/api/posts'')) = 204 \<and>
   statusCode (app bare_express (leap_day_process Map.empty) (broken_get ''/api/posts'')) = 400"
proof -
  have lowered: "map lower ''/api/health/'' = ''/api/health/''"
    "map lower ''/API/HEALTH'' = ''/api/health''"
    by (simp_all add: lower_def)
  have "app bare_express (leap_day_process Map.empty) (get ''/api/health/'')
      = health bare_express (leap_day_process Map.empty) (get ''/api/health/'')"
    "app bare_express (leap_day_process Map.empty) (get ''/API/HEALTH'')
      = health bare_express (leap_day_process Map.empty) (get ''/API/HEALTH'')"
  proof -
    have "find (\<lambda>(r, h). route_matches r (get ''/api/health/'')) routes
        = Some ((''GET'', ''/api/health''), health)"
      "find (\<lambda>(r, h). route_matches r (get ''/API/HEALTH'')) routes
        = Some ((''GET'', ''/api/health''), health)"
      unfolding router get_fields lowered by simp_all
    then show "app bare_express (leap_day_process Map.empty) (get ''/api/health/'')
        = health bare_express (leap_day_process Map.empty) (get ''/api/health/'')"
      "app bare_express (leap_day_process Map.empty) (get ''/API/HEALTH'')
        = health bare_express (leap_day_process Map.empty) (get ''/API/HEALTH'')"
      by (simp_all add: app_def middleware_answer get_fields bare_express_passes
          express_static_def)
  qed
  moreover have "app bare_express (leap_day_process Map.empty) (preflight ''/api/posts'')
      = \<lparr>statusCode = 204, content_type = None, payload = Text []\<rparr>"
    by (simp add: app_def middleware_answer preflight_fields)
  moreover have "app bare_express (leap_day_process Map.empty) (broken_get ''/api/posts'')
      = error_response bare_express 400 (broken_get ''/api/posts'')"
    by (simp add: app_def middleware_answer broken_get_fields)
  ultimately show ?thesis
    by (simp add: health_answer get_fields get_not_fresh json_field_def bare_express_passes
        error_response_fields)
qed

text \<open>
  C8, amended: the application registers three routes and nothing after them. A
  preflight, a request with the method \<^verbatim>\<open>OPTIONS\<close>, is answered by \<^verbatim>\<open>cors()\<close> with 204; a
  request whose body the parser rejects, with the error of the parser; a request for
  which the static directory holds a file, with the file. Of the other requests, those
  with the method \<^verbatim>\<open>GET\<close> or \<^verbatim>\<open>HEAD\<close> whose path, compared without regard to case and to
  one slash at the end, is \<^verbatim>\<open>/\<close>, \<^verbatim>\<open>/api/health\<close> or \<^verbatim>\<open>/api/info\<close> are answered by the handler
  of the route, never with 404, and all the remaining ones by the fallback of the
  framework: status 404 and an HTML error page.
\<close>

theorem unmatched_request_gets_404:
  "let wanted = map lower (path q);
       reads = (method q = ''GET'' \<or> method q = ''HEAD'')
   in map fst routes = [(''GET'', ''/''), (''GET'', ''/api/health''), (''GET'', ''/api/info'')] \<and>
      app fw p q =
        (if method q = ''OPTIONS''
         then \<lparr>statusCode = 204, content_type = None, payload = Text []\<rparr>
         else case json_fault fw q of
                Some code \<Rightarrow> error_response fw code q
              | None \<Rightarrow>
                  (case express_static fw q of
                     Some file \<Rightarrow> file
                   | None \<Rightarrow>
                       if reads \<and> wanted \<in> {[], ''/''} then home fw p q
                       else if reads \<and> wanted \<in> {''/api/health'', ''/api/health/''}
                         then health fw p q
                       else if reads \<and> wanted \<in> {''/api/info'', ''/api/info/''}
                         then info fw p q
                       else finalhandler fw q)) \<and>
      statusCode (finalhandler fw q) = 404 \<and>
      content_type (finalhandler fw q) = Some ''text/html; charset=utf-8'' \<and>
      payload (finalhandler fw q)
        = (if method q = ''HEAD'' then Text [] else Text (error_page fw 404 q)) \<and>
      statusCode (home fw p q) \<noteq> 404 \<and>
      statusCode (health fw p q) \<noteq> 404 \<and>
      statusCode (info fw p q) \<noteq> 404"
proof -
  have "map fst routes = [(''GET'', ''/''), (''GET'', ''/api/health''), (''GET'', ''/api/info'')]"
    by (simp add: routes_def)
  moreover have "app fw p q =
      (if method q = ''OPTIONS''
       then \<lparr>statusCode = 204, content_type = None, payload = Text []\<rparr>
       else case json_fault fw q of
              Some code \<Rightarrow> error_response fw code q
            | None \<Rightarrow>
                (case express_static fw q of
                   Some file \<Rightarrow> file
                 | None \<Rightarrow>
                     if (method q = ''GET'' \<or> method q = ''HEAD'') \<and>
                       map lower (path q) \<in> {[], ''/''} then home fw p q
                     else if (method q = ''GET'' \<or> method q = ''HEAD'') \<and>
                       map lower (path q) \<in> {''/api/health'', ''/api/health/''}
                       then health fw p q
                     else if (method q = ''GET'' \<or> method q = ''HEAD'') \<and>
                       map lower (path q) \<in> {''/api/info'', ''/api/info/''}
                       then info fw p q
                     else finalhandler fw q))"
    unfolding app_def middleware_answer router
    by (simp split: option.splits)
  moreover have "statusCode (finalhandler fw q) = 404"
    "content_type (finalhandler fw q) = Some ''text/html; charset=utf-8''"
    "payload (finalhandler fw q)
      = (if method q = ''HEAD'' then Text [] else Text (error_page fw 404 q))"
    by (simp_all add: finalhandler_def error_response_def)
  ultimately show ?thesis
    unfolding Let_def using handler_status [of fw p q] by blast
qed

theorem unmatched_request_gets_404_witness:
  "statusCode (app bare_express (leap_day_process Map.empty) (get ''/api/posts'')) = 404 \<and>
   content_type (app bare_express (leap_day_process Map.empty) (get ''/api/posts''))
     = Some ''text/html; charset=utf-8''"
proof -
  have posts: "map lower ''/api/posts'' = ''/api/posts''"
    by (simp add: lower_def)
  show ?thesis
    using unmatched_request_gets_404
      [of "get ''/api/posts''" bare_express "leap_day_process Map.empty"]
    by (simp add: Let_def get_fields bare_express_passes express_static_def posts
        finalhandler_def error_response_def)
qed

section \<open>Runs of the server\<close>

lemma serve_append:
  "serve fw s (es @ es') = serve fw s es @ serve fw (fold step es s) es'"
  by (induction fw s es rule: serve.induct) (simp_all add: step_def)

lemma listening_fold_step: "listening (fold step es s) = listening s"
  by (induction es arbitrary: s) (simp_all add: step_def)

lemma up_ns_advance: "up_ns p \<le> up_ns (advance e p)"
  by (cases e) simp_all

lemma step_Request: "step (Request q) s = s"
  by (simp add: step_def)

lemma up_ns_step: "up_ns (proc s) \<le> up_ns (proc (step e s))"
  by (simp add: step_def up_ns_advance)

lemma serve_member:
  assumes "(q, r) \<in> set (serve fw s es)"
  shows "\<exists>p. r = app fw p q \<and> up_ns (proc s) \<le> up_ns p"
  using assms
proof (induction es arbitrary: s)
  case Nil
  then show ?case by simp
next
  case (Cons e es)
  show ?case
  proof (cases "(q, r) \<in> set (serve fw (step e s) es)")
    case True
    from Cons.IH [OF this] obtain p
      where p: "r = app fw p q" "up_ns (proc (step e s)) \<le> up_ns p"
      by blast
    from up_ns_step [of s e] p(2) have "up_ns (proc s) \<le> up_ns p"
      by (rule order_trans)
    with p(1) show ?thesis
      by blast
  next
    case False
    with Cons.prems have "r = app fw (proc s) q"
      by (cases e) (simp_all add: step_Request)
    then show ?thesis
      by blast
  qed
qed

lemma serve_in_order:
  "sorted_wrt
     (\<lambda>a b. \<exists>p p'. snd a = app fw p (fst a) \<and> snd b = app fw p' (fst b) \<and> up_ns p \<le> up_ns p')
     (serve fw s es)"
proof (induction fw s es rule: serve.induct)
  case (2 fw s q es)
  have "\<exists>p p'. app fw (proc s) q = app fw p q \<and> snd b = app fw p' (fst b) \<and> up_ns p \<le> up_ns p'"
    if "b \<in> set (serve fw s es)" for b
  proof -
    from that have "(fst b, snd b) \<in> set (serve fw s es)"
      by simp
    from serve_member [OF this] show ?thesis
      by blast
  qed
  with 2 show ?case
    by simp
qed simp_all

lemma bare_health:
  "app bare_express p (get ''/api/health'') =
     \<lparr>statusCode = 200, content_type = Some ''application/json; charset=utf-8'',
      payload = Json [(''status'', JString ''healthy''),
                      (''timestamp'', JString (toISOString (clock p))),
                      (''uptime'', JNumber (process_uptime p))]\<rparr>"
  by (simp add: bare_answers health_answer get_fields get_not_fresh)

lemma bare_run:
  "serve bare_express (start (leap_day_process Map.empty))
     [Request (get ''/api/health''), Elapse 250, Request (conditional_get ''/api/health'')]
   = [(get ''/api/health'',
       \<lparr>statusCode = 200, content_type = Some ''application/json; charset=utf-8'',
        payload = Json [(''status'', JString ''healthy''),
                        (''timestamp'', JString ''2024-02-29T12:34:56.789Z''),
                        (''uptime'', JNumber (3 / 2))]\<rparr>),
      (conditional_get ''/api/health'', not_modified)]"
  by (simp add: start_def step_def bare_health bare_answers leap_day_fields leap_day_clock)

lemma bare_run_twice:
  "serve bare_express (start (leap_day_process Map.empty))
     [Request (get ''/api/health''), Elapse 250, Request (get ''/api/health'')]
   = [(get ''/api/health'',
       \<lparr>statusCode = 200, content_type = Some ''application/json; charset=utf-8'',
        payload = Json [(''status'', JString ''healthy''),
                        (''timestamp'', JString ''2024-02-29T12:34:56.789Z''),
                        (''uptime'', JNumber (3 / 2))]\<rparr>),
      (get ''/api/health'',
       \<lparr>statusCode = 200, content_type = Some ''application/json; charset=utf-8'',
        payload = Json [(''status'', JString ''healthy''),
                        (''timestamp'', JString ''2024-02-29T12:34:56.789Z''),
                        (''uptime'', JNumber (1500000250 / 1000000000))]\<rparr>)]"
  by (simp add: start_def step_def bare_health leap_day_fields leap_day_clock elapse_fields
      leap_day_up_ns del: advance.simps)

lemma bare_run_broken:
  "serve bare_express (start (leap_day_process Map.empty))
     [Request (get ''/api/health''), Elapse 250, Request (broken_get ''/api/health'')] ! 1
   = (broken_get ''/api/health'', error_response bare_express 400 (broken_get ''/api/health''))"
  by (simp add: bare_answers)

lemma served_run:
  "serve (serving [(''/api/health'', file)]) (start (leap_day_process Map.empty))
     [Request (get ''/api/health''), Elapse 250, Request (get ''/api/health'')] ! 1
   = (get ''/api/health'', file)"
  by (simp add: served_file)

lemma health_in_run:
  assumes "(q, r) \<in> set (serve fw s es)"
    and "method q = ''GET''" and "path q = ''/api/health''"
  shows "\<exists>p'. up_ns (proc s) \<le> up_ns p' \<and>
    (case json_fault fw q of
       Some code \<Rightarrow> r = error_response fw code q
     | None \<Rightarrow>
         (case static_file fw q of
            Some file \<Rightarrow> r = file
          | None \<Rightarrow>
              r = (if fresh fw q 200 (Json [(''status'', JString ''healthy''),
                       (''timestamp'', JString (toISOString (clock p'))),
                       (''uptime'', JNumber (process_uptime p'))])
                   then not_modified
                   else \<lparr>statusCode = 200,
                          content_type = Some ''application/json; charset=utf-8'',
                          payload = Json [(''status'', JString ''healthy''),
                            (''timestamp'', JString (toISOString (clock p'))),
                            (''uptime'', JNumber (process_uptime p'))]\<rparr>)))"
proof -
  from serve_member [OF assms(1)] obtain p'
    where "r = app fw p' q" and "up_ns (proc s) \<le> up_ns p'"
    by blast
  then show ?thesis
    by (intro exI [of _ p'])
      (simp add: way_to_health [OF assms(2,3)] health_answer [OF assms(2)]
        split: option.splits)
qed

subsection \<open>The status of the health check\<close>

text \<open>
  C10, as stated, fails, in three ways. In a run of the server, the answer to a
  conditional request to \<^verbatim>\<open>GET /api/health\<close> with \<^verbatim>\<open>If-None-Match: *\<close> has no body and so no
  status field. The answer to a request to \<^verbatim>\<open>GET /api/health\<close> whose JSON body does not
  parse is the error page of the framework. And when the static directory holds a file
  for the path, the file is the answer.
\<close>

theorem health_status_counterexample:
  "json_field
     (snd (last (serve bare_express (start (leap_day_process Map.empty))
        [Request (get ''/api/health''), Elapse 250,
         Request (conditional_get ''/api/health'')])))
     ''status'' = None \<and>
   json_field
     (snd (last (serve bare_express (start (leap_day_process Map.empty))
        [Request (get ''/api/health''), Elapse 250,
         Request (conditional_get ''/api/health'')])))
     ''status'' \<noteq> Some (JString ''healthy'') \<and>
   json_field
     (snd (last (serve bare_express (start (leap_day_process Map.empty))
        [Request (broken_get ''/api/health'')])))
     ''status'' = None \<and>
   serve (serving [(''/api/health'', file_response ''application/octet-stream'' ''down'')])
       (start (leap_day_process Map.empty)) [Request (get ''/api/health'')]
     = [(get ''/api/health'', file_response ''application/octet-stream'' ''down'')]"
  by (simp add: bare_run not_modified_fields bare_answers error_response_fields served_file)

text \<open>
  C10, amended: in every run of the server, whatever has happened to the process before,
  a \<^verbatim>\<open>GET\<close> request with the path \<^verbatim>\<open>/api/health\<close> is answered with the error of the body
  parser when the parser rejects its body; otherwise with the file of the static
  directory for the path, when there is one; and otherwise by the handler, whose answer
  either has no body (a fresh conditional request, answered with 304) or has the status
  \<^verbatim>\<open>healthy\<close>. An answer that is no file never has another status value, and the answer
  of the handler to a request without \<^verbatim>\<open>If-None-Match\<close> always has the status \<^verbatim>\<open>healthy\<close>.
\<close>

theorem health_status_is_constant:
  assumes "(q, r) \<in> set (serve fw (start p) es)"
    and "method q = ''GET''" and "path q = ''/api/health''"
  shows "(case json_fault fw q of
            Some code \<Rightarrow> r = error_response fw code q
          | None \<Rightarrow>
              (case static_file fw q of
                 Some file \<Rightarrow> r = file
               | None \<Rightarrow>
                   (r = not_modified \<or> json_field r ''status'' = Some (JString ''healthy'')) \<and>
                   (header q ''if-none-match'' = None \<longrightarrow>
                      json_field r ''status'' = Some (JString ''healthy'')))) \<and>
         (static_file fw q = None \<longrightarrow>
            (\<forall>v. json_field r ''status'' = Some v \<longrightarrow> v = JString ''healthy''))"
  using health_in_run [OF assms]
  by (auto simp: json_field_def not_modified_def error_response_def unconditional_not_fresh
      split: option.splits if_splits)

theorem health_status_is_constant_witness:
  "(get ''/api/health'',
    \<lparr>statusCode = 200, content_type = Some ''application/json; charset=utf-8'',
     payload = Json [(''status'', JString ''healthy''),
                     (''timestamp'', JString ''2024-02-29T12:34:56.789Z''),
                     (''uptime'', JNumber (3 / 2))]\<rparr>)
     \<in> set (serve bare_express (start (leap_day_process Map.empty))
        [Request (get ''/api/health''), Elapse 250,
         Request (conditional_get ''/api/health'')]) \<and>
   method (get ''/api/health'') = ''GET'' \<and> path (get ''/api/health'') = ''/api/health'' \<and>
   json_field
     \<lparr>statusCode = 200, content_type = Some ''application/json; charset=utf-8'',
      payload = Json [(''status'', JString ''healthy''),
                      (''timestamp'', JString ''2024-02-29T12:34:56.789Z''),
                      (''uptime'', JNumber (3 / 2))]\<rparr>
     ''status'' = Some (JString ''healthy'')"
proof -
  have member: "(get ''/api/health'',
    \<lparr>statusCode = 200, content_type = Some ''application/json; charset=utf-8'',
     payload = Json [(''status'', JString ''healthy''),
                     (''timestamp'', JString ''2024-02-29T12:34:56.789Z''),
                     (''uptime'', JNumber (3 / 2))]\<rparr>)
     \<in> set (serve bare_express (start (leap_day_process Map.empty))
        [Request (get ''/api/health''), Elapse 250,
         Request (conditional_get ''/api/health'')])"
    by (simp only: bare_run) simp
  from health_status_is_constant [OF member get_fields(1) get_fields(2)]
  have "json_field
     \<lparr>statusCode = 200, content_type = Some ''application/json; charset=utf-8'',
      payload = Json [(''status'', JString ''healthy''),
                      (''timestamp'', JString ''2024-02-29T12:34:56.789Z''),
                      (''uptime'', JNumber (3 / 2))]\<rparr>
     ''status'' = Some (JString ''healthy'')"
    by (simp add: get_fields bare_express_passes not_modified_def)
  with member show ?thesis
    by (simp only: get_fields simp_thms)
qed

subsection \<open>The uptime over a run\<close>

lemma process_uptime_mono: "up_ns p \<le> up_ns p' \<Longrightarrow> process_uptime p \<le> process_uptime p'"
  by (simp add: process_uptime_def divide_right_mono)

lemma uptime_of_answer:
  assumes "method q = ''GET''" and "path q = ''/api/health''"
    and "static_file fw q = None"
    and "json_field (app fw p q) ''uptime'' = Some (JNumber u)"
  shows "u = process_uptime p"
  using assms(3,4)
  by (simp add: way_to_health [OF assms(1,2)] health_answer [OF assms(1)] json_field_def
      not_modified_def error_response_def split: option.splits if_splits)

lemma uptime_in_answer:
  assumes "method q = ''GET''" and "path q = ''/api/health''"
  shows "case json_fault fw q of
           Some code \<Rightarrow> app fw p q = error_response fw code q
         | None \<Rightarrow>
             (case static_file fw q of
                Some file \<Rightarrow> app fw p q = file
              | None \<Rightarrow>
                  (app fw p q = not_modified \<or>
                   (\<exists>u. json_field (app fw p q) ''uptime'' = Some (JNumber u))) \<and>
                  (header q ''if-none-match'' = None \<longrightarrow>
                   (\<exists>u. json_field (app fw p q) ''uptime'' = Some (JNumber u))))"
  by (simp add: way_to_health [OF assms] health_answer [OF assms(1)] json_field_def
      unconditional_not_fresh split: option.splits)

text \<open>
  C6, as stated, fails, in three ways. Of two consecutive requests to
  \<^verbatim>\<open>GET /api/health\<close>, the second a conditional request with \<^verbatim>\<open>If-None-Match: *\<close>, the first
  is answered with an uptime and the second with no body, so there is no uptime in the
  second answer to compare. There is none either in the answer to a request whose JSON
  body does not parse, nor in a file of the static directory that is the answer.
\<close>

theorem uptime_conditional_counterexample:
  "json_field
     (snd (serve bare_express (start (leap_day_process Map.empty))
        [Request (get ''/api/health''), Elapse 250,
         Request (conditional_get ''/api/health'')] ! 0))
     ''uptime'' = Some (JNumber (3 / 2)) \<and>
   json_field
     (snd (serve bare_express (start (leap_day_process Map.empty))
        [Request (get ''/api/health''), Elapse 250,
         Request (conditional_get ''/api/health'')] ! 1))
     ''uptime'' = None \<and>
   json_field
     (snd (serve bare_express (start (leap_day_process Map.empty))
        [Request (get ''/api/health''), Elapse 250,
         Request (broken_get ''/api/health'')] ! 1))
     ''uptime'' = None \<and>
   json_field
     (snd (serve (serving [(''/api/health'', file_response ''application/octet-stream'' ''down'')])
        (start (leap_day_process Map.empty))
        [Request (get ''/api/health''), Elapse 250, Request (get ''/api/health'')] ! 1))
     ''uptime'' = None"
  unfolding bare_run bare_run_broken served_run
  by (simp add: not_modified_fields error_response_fields)
    (simp add: file_response_def json_field_def)

text \<open>
  C6, amended: of two \<^verbatim>\<open>GET\<close> requests with the path \<^verbatim>\<open>/api/health\<close> in one run of the
  server, each is answered with the error of the body parser when the parser rejects its
  body, otherwise with the file of the static directory for the path, when there is one,
  and otherwise by the handler, which reports an uptime unless the request is a fresh
  conditional request (answered with 304 and no body; a request without
  \<^verbatim>\<open>If-None-Match\<close> is never fresh). When neither answer is a file and both report an
  uptime, the uptime of the later answer is not smaller than the uptime of the earlier
  one.
\<close>

theorem uptime_never_decreases:
  assumes "i < j"
    and "j < length (serve fw (start p) es)"
    and "serve fw (start p) es ! i = (q, r)"
    and "serve fw (start p) es ! j = (q', r')"
    and "method q = ''GET''" and "path q = ''/api/health''"
    and "method q' = ''GET''" and "path q' = ''/api/health''"
  shows "(static_file fw q = None \<and> static_file fw q' = None \<longrightarrow>
            (\<forall>u u'. json_field r ''uptime'' = Some (JNumber u) \<and>
               json_field r' ''uptime'' = Some (JNumber u') \<longrightarrow> u \<le> u')) \<and>
         (case json_fault fw q of
            Some code \<Rightarrow> r = error_response fw code q
          | None \<Rightarrow>
              (case static_file fw q of
                 Some file \<Rightarrow> r = file
               | None \<Rightarrow>
                   (r = not_modified \<or> (\<exists>u. json_field r ''uptime'' = Some (JNumber u))) \<and>
                   (header q ''if-none-match'' = None \<longrightarrow>
                    (\<exists>u. json_field r ''uptime'' = Some (JNumber u))))) \<and>
         (case json_fault fw q' of
            Some code \<Rightarrow> r' = error_response fw code q'
          | None \<Rightarrow>
              (case static_file fw q' of
                 Some file \<Rightarrow> r' = file
               | None \<Rightarrow>
                   (r' = not_modified \<or> (\<exists>u. json_field r' ''uptime'' = Some (JNumber u))) \<and>
                   (header q' ''if-none-match'' = None \<longrightarrow>
                    (\<exists>u. json_field r' ''uptime'' = Some (JNumber u)))))"
proof -
  from serve_in_order [of fw "start p" es] assms(1,2)
  have "\<exists>p1 p2. snd (serve fw (start p) es ! i) = app fw p1 (fst (serve fw (start p) es ! i)) \<and>
      snd (serve fw (start p) es ! j) = app fw p2 (fst (serve fw (start p) es ! j)) \<and>
      up_ns p1 \<le> up_ns p2"
    unfolding sorted_wrt_iff_nth_less by blast
  then obtain p1 p2
    where first: "r = app fw p1 q" and second: "r' = app fw p2 q'"
      and order: "up_ns p1 \<le> up_ns p2"
    by (auto simp: assms(3,4))
  have "u \<le> u'"
    if "static_file fw q = None" and "static_file fw q' = None"
      and "json_field r ''uptime'' = Some (JNumber u)"
      and "json_field r' ''uptime'' = Some (JNumber u')"
    for u u'
  proof -
    have "u = process_uptime p1"
      using assms(5,6) that(1) that(3) [unfolded first] by (rule uptime_of_answer)
    moreover have "u' = process_uptime p2"
      using assms(7,8) that(2) that(4) [unfolded second] by (rule uptime_of_answer)
    ultimately show ?thesis
      using process_uptime_mono [OF order] by simp
  qed
  then have "static_file fw q = None \<and> static_file fw q' = None \<longrightarrow>
      (\<forall>u u'. json_field r ''uptime'' = Some (JNumber u) \<and>
         json_field r' ''uptime'' = Some (JNumber u') \<longrightarrow> u \<le> u')"
    by blast
  then show ?thesis
    using uptime_in_answer [OF assms(5,6), of fw p1] uptime_in_answer [OF assms(7,8), of fw p2]
    unfolding first second by (intro conjI)
qed

theorem uptime_never_decreases_witness:
  "serve bare_express (start (leap_day_process Map.empty))
     [Request (get ''/api/health''), Elapse 250, Request (get ''/api/health'')]
   = [(get ''/api/health'',
       \<lparr>statusCode = 200, content_type = Some ''application/json; charset=utf-8'',
        payload = Json [(''status'', JString ''healthy''),
                        (''timestamp'', JString ''2024-02-29T12:34:56.789Z''),
                        (''uptime'', JNumber (3 / 2))]\<rparr>),
      (get ''/api/health'',
       \<lparr>statusCode = 200, content_type = Some ''application/json; charset=utf-8'',
        payload = Json [(''status'', JString ''healthy''),
                        (''timestamp'', JString ''2024-02-29T12:34:56.789Z''),
                        (''uptime'', JNumber (1500000250 / 1000000000))]\<rparr>)] \<and>
   (3 / 2 :: real) \<le> 1500000250 / 1000000000"
proof -
  have "(3 / 2 :: real) \<le> 1500000250 / 1000000000"
    using uptime_never_decreases [of 0 1 bare_express "leap_day_process Map.empty"
        "[Request (get ''/api/health''), Elapse 250, Request (get ''/api/health'')]"
        "get ''/api/health''" _ "get ''/api/health''"]
    by (simp add: bare_run_twice get_fields bare_express_passes json_field_def)
  with bare_run_twice show ?thesis
    by blast
qed

subsection \<open>The configuration over a run\<close>

lemma node_env_cong: "e ''NODE_ENV'' = e' ''NODE_ENV'' \<Longrightarrow> node_env e = node_env e'"
  by (simp add: node_env_def)

lemma app_ignores_port:
  assumes "release p = release p'" and "clock p = clock p'" and "up_ns p = up_ns p'"
    and "\<forall>k. k \<noteq> ''PORT'' \<longrightarrow> env p k = env p' k"
  shows "app fw p q = app fw p' q"
proof -
  have name: "node_env (env p) = node_env (env p')"
    using assms(4) by (intro node_env_cong) simp
  have handlers: "home fw p q = home fw p' q" "health fw p q = health fw p' q"
    "info fw p q = info fw p' q"
    using assms(1-3) name
    by (simp_all add: home_def health_def info_def process_version_def process_uptime_def)
  show ?thesis
  proof (cases "find (\<lambda>(r, h). route_matches r q) routes")
    case None
    then show ?thesis
      by (simp add: app_def split: option.splits)
  next
    case (Some a)
    obtain r h where a: "a = (r, h)"
      by (cases a)
    from Some have "a \<in> set routes"
      by (auto simp: find_Some_iff in_set_conv_nth)
    then have "h fw p q = h fw p' q"
      using handlers a by (auto simp: routes_def)
    then show ?thesis
      by (simp add: app_def Some a split: option.splits)
  qed
qed

lemma serve_ignores_port:
  assumes "release (proc s) = release (proc s')" and "clock (proc s) = clock (proc s')"
    and "up_ns (proc s) = up_ns (proc s')"
    and "\<forall>k. k \<noteq> ''PORT'' \<longrightarrow> env (proc s) k = env (proc s') k"
  shows "serve fw s es = serve fw s' es"
  using assms
proof (induction es arbitrary: s s')
  case Nil
  then show ?case by simp
next
  case (Cons e es)
  show ?case
  proof (cases e)
    case (Request q)
    have "app fw (proc s) q = app fw (proc s') q"
      using Cons.prems by (rule app_ignores_port)
    moreover have "serve fw s es = serve fw s' es"
      using Cons.prems by (rule Cons.IH)
    ultimately show ?thesis
      by (simp add: Request)
  next
    case (Elapse d)
    have "serve fw (step e s) es = serve fw (step e s') es"
      using Cons.prems by (intro Cons.IH) (simp_all add: step_def Elapse)
    then show ?thesis
      by (simp add: Elapse)
  next
    case (ClockSet t)
    have "serve fw (step e s) es = serve fw (step e s') es"
      using Cons.prems by (intro Cons.IH) (simp_all add: step_def ClockSet)
    then show ?thesis
      by (simp add: ClockSet)
  next
    case (EnvSet k v)
    have "serve fw (step e s) es = serve fw (step e s') es"
      using Cons.prems by (intro Cons.IH) (simp_all add: step_def EnvSet)
    then show ?thesis
      by (simp add: EnvSet)
  next
    case (EnvDelete k)
    have "serve fw (step e s) es = serve fw (step e s') es"
      using Cons.prems by (intro Cons.IH) (simp_all add: step_def EnvDelete)
    then show ?thesis
      by (simp add: EnvDelete)
  qed
qed

lemma serve_skips_port_event:
  assumes "e = EnvSet ''PORT'' v \<or> e = EnvDelete ''PORT''"
  shows "serve fw s (es @ e # es') = serve fw s (es @ es')"
proof -
  have "serve fw (step e (fold step es s)) es' = serve fw (fold step es s) es'"
    using assms by (intro serve_ignores_port) (auto simp: step_def)
  with assms show ?thesis
    by (auto simp: serve_append)
qed

lemma serve_then_request:
  "serve fw s (es @ [Request q]) = serve fw s es @ [(q, app fw (proc (fold step es s)) q)]"
  by (simp add: serve_append)

lemma bare_info:
  "app bare_express p (get ''/api/info'') =
     \<lparr>statusCode = 200, content_type = Some ''application/json; charset=utf-8'',
      payload = Json [(''status'', JString ''success''),
                      (''message'', JString ''Simple Blog App Node.js Application''),
                      (''version'', JString ''1.0.0''),
                      (''node_version'', JString (process_version p)),
                      (''environment'', JString (node_env (env p))),
                      (''timestamp'', JString (toISOString (clock p)))]\<rparr>"
  by (simp add: bare_answers info_answer get_fields get_not_fresh)

lemma env_set_fields:
  "env (advance (EnvSet k v) p) = (env p)(k \<mapsto> v)"
  "env (advance (EnvDelete k) p) = (env p)(k := None)"
  "clock (advance (EnvSet k v) p) = clock p"
  "process_version (advance (EnvSet k v) p) = process_version p"
  by (simp_all add: process_version_def)

text \<open>
  C4, as stated, fails: the handlers read \<^verbatim>\<open>process.env.NODE_ENV\<close> again at every request.
  The same request is answered with \<^verbatim>\<open>development\<close> before \<^verbatim>\<open>NODE_ENV\<close> is assigned and with
  \<^verbatim>\<open>production\<close> after.
\<close>

theorem environment_read_again_counterexample:
  "json_field
     (snd (hd (serve bare_express (start (leap_day_process Map.empty))
        [Request (get ''/api/info'')])))
     ''environment'' = Some (JString ''development'') \<and>
   json_field
     (snd (hd (serve bare_express (start (leap_day_process Map.empty))
        [EnvSet ''NODE_ENV'' ''production'', Request (get ''/api/info'')])))
     ''environment'' = Some (JString ''production'')"
  by (simp add: step_def start_def bare_info json_field_def leap_day_fields node_env_cases
      del: advance.simps add: env_set_fields)

text \<open>
  C4, amended: the port is read from the environment once, at the start, and is fixed from
  then on: no event changes what the listener was given, and an assignment to \<^verbatim>\<open>PORT\<close> or
  its deletion after the start changes no response. The name of the environment is not
  kept: an assignment to \<^verbatim>\<open>NODE_ENV\<close> after the start changes the environment of the
  process, and the handlers of \<^verbatim>\<open>GET /api/info\<close> and of \<^verbatim>\<open>GET /\<close> answer with the value that
  \<^verbatim>\<open>NODE_ENV\<close> has in the process at the moment of the request (\<^verbatim>\<open>development\<close> when it is
  not set or empty). A request with one of these paths is answered with the error of the
  body parser when the parser rejects its body, otherwise with the file of the static
  directory for the path, when there is one, otherwise, when it is a fresh conditional
  request, with 304 and no body, and otherwise by the handler with that value.
\<close>

theorem port_read_once_environment_per_request:
  "let now = proc (fold step es (start p));
       name = (case env now ''NODE_ENV'' of None \<Rightarrow> ''development''
               | Some v \<Rightarrow> if v = [] then ''development'' else v);
       answer = Json [(''status'', JString ''success''),
                      (''message'', JString ''Simple Blog App Node.js Application''),
                      (''version'', JString ''1.0.0''),
                      (''node_version'', JString (process_version now)),
                      (''environment'', JString name),
                      (''timestamp'', JString (toISOString (clock now)))];
       page = home_page (process_version now) name (toISOString (clock now))
   in listening (fold step es (start p)) = PORT (env p) \<and>
      serve fw (start p) (es @ EnvSet ''PORT'' v # es') = serve fw (start p) (es @ es') \<and>
      serve fw (start p) (es @ EnvDelete ''PORT'' # es') = serve fw (start p) (es @ es') \<and>
      env (proc (fold step (es @ [EnvSet ''NODE_ENV'' v]) (start p))) ''NODE_ENV'' = Some v \<and>
      env (proc (fold step (es @ [EnvDelete ''NODE_ENV'']) (start p))) ''NODE_ENV'' = None \<and>
      (method q = ''GET'' \<and> path q = ''/api/info'' \<longrightarrow>
         serve fw (start p) (es @ [Request q]) =
           serve fw (start p) es @
             [(q, case json_fault fw q of
                    Some code \<Rightarrow> error_response fw code q
                  | None \<Rightarrow>
                      (case static_file fw q of
                         Some file \<Rightarrow> file
                       | None \<Rightarrow>
                           if fresh fw q 200 answer then not_modified
                           else \<lparr>statusCode = 200,
                                  content_type = Some ''application/json; charset=utf-8'',
                                  payload = answer\<rparr>))]) \<and>
      (method q = ''GET'' \<and> path q = ''/'' \<longrightarrow>
         serve fw (start p) (es @ [Request q]) =
           serve fw (start p) es @
             [(q, case json_fault fw q of
                    Some code \<Rightarrow> error_response fw code q
                  | None \<Rightarrow>
                      (case static_file fw q of
                         Some file \<Rightarrow> file
                       | None \<Rightarrow>
                           if fresh fw q 200 (Text page) then not_modified
                           else \<lparr>statusCode = 200,
                                  content_type = Some ''text/html; charset=utf-8'',
                                  payload = Text page\<rparr>))]) \<and>
      (header q ''if-none-match'' = None \<longrightarrow>
         \<not> fresh fw q 200 answer \<and> \<not> fresh fw q 200 (Text page))"
proof -
  define now where "now = proc (fold step es (start p))"
  define name where "name = (case env now ''NODE_ENV'' of None \<Rightarrow> ''development''
    | Some v \<Rightarrow> if v = [] then ''development'' else v)"
  define answer where "answer = Json [(''status'', JString ''success''),
    (''message'', JString ''Simple Blog App Node.js Application''),
    (''version'', JString ''1.0.0''),
    (''node_version'', JString (process_version now)),
    (''environment'', JString name),
    (''timestamp'', JString (toISOString (clock now)))]"
  define page where "page = home_page (process_version now) name (toISOString (clock now))"
  have name: "node_env (env now) = name"
    by (simp add: name_def node_env_cases)
  have one: "listening (fold step es (start p)) = PORT (env p)"
    by (simp add: listening_fold_step start_def)
  have two: "serve fw (start p) (es @ EnvSet ''PORT'' v # es') = serve fw (start p) (es @ es')"
    by (rule serve_skips_port_event) simp
  have three: "serve fw (start p) (es @ EnvDelete ''PORT'' # es') = serve fw (start p) (es @ es')"
    by (rule serve_skips_port_event) simp
  have four: "env (proc (fold step (es @ [EnvSet ''NODE_ENV'' v]) (start p))) ''NODE_ENV'' = Some v"
    by (simp add: step_def)
  have five: "env (proc (fold step (es @ [EnvDelete ''NODE_ENV'']) (start p))) ''NODE_ENV'' = None"
    by (simp add: step_def)
  have six: "method q = ''GET'' \<and> path q = ''/api/info'' \<longrightarrow>
      serve fw (start p) (es @ [Request q]) =
        serve fw (start p) es @
          [(q, case json_fault fw q of
                 Some code \<Rightarrow> error_response fw code q
               | None \<Rightarrow>
                   (case static_file fw q of
                      Some file \<Rightarrow> file
                    | None \<Rightarrow>
                        if fresh fw q 200 answer then not_modified
                        else \<lparr>statusCode = 200,
                               content_type = Some ''application/json; charset=utf-8'',
                               payload = answer\<rparr>))]"
  proof
    assume q: "method q = ''GET'' \<and> path q = ''/api/info''"
    then have "method q = ''GET''" and "path q = ''/api/info''"
      by simp_all
    from way_to_info [OF this, of fw now] info_answer [OF this(1), of fw now]
    have "app fw now q =
        (case json_fault fw q of
           Some code \<Rightarrow> error_response fw code q
         | None \<Rightarrow>
             (case static_file fw q of
                Some file \<Rightarrow> file
              | None \<Rightarrow>
                  if fresh fw q 200 answer then not_modified
                  else \<lparr>statusCode = 200,
                         content_type = Some ''application/json; charset=utf-8'',
                         payload = answer\<rparr>))"
      unfolding answer_def name by (simp only:)
    then show "serve fw (start p) (es @ [Request q]) =
        serve fw (start p) es @
          [(q, case json_fault fw q of
                 Some code \<Rightarrow> error_response fw code q
               | None \<Rightarrow>
                   (case static_file fw q of
                      Some file \<Rightarrow> file
                    | None \<Rightarrow>
                        if fresh fw q 200 answer then not_modified
                        else \<lparr>statusCode = 200,
                               content_type = Some ''application/json; charset=utf-8'',
                               payload = answer\<rparr>))]"
      by (simp only: serve_then_request now_def)
  qed
  have seven: "method q = ''GET'' \<and> path q = ''/'' \<longrightarrow>
      serve fw (start p) (es @ [Request q]) =
        serve fw (start p) es @
          [(q, case json_fault fw q of
                 Some code \<Rightarrow> error_response fw code q
               | None \<Rightarrow>
                   (case static_file fw q of
                      Some file \<Rightarrow> file
                    | None \<Rightarrow>
                        if fresh fw q 200 (Text page) then not_modified
                        else \<lparr>statusCode = 200,
                               content_type = Some ''text/html; charset=utf-8'',
                               payload = Text page\<rparr>))]"
  proof
    assume q: "method q = ''GET'' \<and> path q = ''/''"
    then have "method q = ''GET''" and "path q = ''/''"
      by simp_all
    from way_to_home [OF this, of fw now] home_answer [OF this(1), of fw now]
    have "app fw now q =
        (case json_fault fw q of
           Some code \<Rightarrow> error_response fw code q
         | None \<Rightarrow>
             (case static_file fw q of
                Some file \<Rightarrow> file
              | None \<Rightarrow>
                  if fresh fw q 200 (Text page) then not_modified
                  else \<lparr>statusCode = 200,
                         content_type = Some ''text/html; charset=utf-8'',
                         payload = Text page\<rparr>))"
      unfolding page_def name by (simp only:)
    then show "serve fw (start p) (es @ [Request q]) =
        serve fw (start p) es @
          [(q, case json_fault fw q of
                 Some code \<Rightarrow> error_response fw code q
               | None \<Rightarrow>
                   (case static_file fw q of
                      Some file \<Rightarrow> file
                    | None \<Rightarrow>
                        if fresh fw q 200 (Text page) then not_modified
                        else \<lparr>statusCode = 200,
                               content_type = Some ''text/html; charset=utf-8'',
                               payload = Text page\<rparr>))]"
      by (simp only: serve_then_request now_def)
  qed
  have eight: "header q ''if-none-match'' = None \<longrightarrow>
      \<not> fresh fw q 200 answer \<and> \<not> fresh fw q 200 (Text page)"
    by (simp add: unconditional_not_fresh)
  show ?thesis
    unfolding Let_def now_def [symmetric] name_def [symmetric] answer_def [symmetric]
      page_def [symmetric]
    using one two three four five six seven eight by (intro conjI)
qed

theorem port_read_once_environment_per_request_witness:
  "listening (fold step [EnvSet ''PORT'' ''9000'', EnvSet ''NODE_ENV'' ''production'']
      (start (leap_day_process [''PORT'' \<mapsto> ''8080'']))) = Inl ''8080'' \<and>
   method (get ''/api/info'') = ''GET'' \<and> path (get ''/api/info'') = ''/api/info'' \<and>
   header (get ''/api/info'') ''if-none-match'' = None \<and>
   serve bare_express (start (leap_day_process [''PORT'' \<mapsto> ''8080'']))
     ([EnvSet ''PORT'' ''9000'', EnvSet ''NODE_ENV'' ''production'']
        @ [Request (get ''/api/info'')])
   = [(get ''/api/info'',
       \<lparr>statusCode = 200, content_type = Some ''application/json; charset=utf-8'',
        payload = Json [(''status'', JString ''success''),
                        (''message'', JString ''Simple Blog App Node.js Application''),
                        (''version'', JString ''1.0.0''),
                        (''node_version'', JString ''v18.17.0''),
                        (''environment'', JString ''production''),
                        (''timestamp'', JString ''2024-02-29T12:34:56.789Z'')]\<rparr>)]"
proof -
  have now: "proc (fold step [EnvSet ''PORT'' ''9000'', EnvSet ''NODE_ENV'' ''production'']
      (start (leap_day_process [''PORT'' \<mapsto> ''8080''])))
    = advance (EnvSet ''NODE_ENV'' ''production'')
        (advance (EnvSet ''PORT'' ''9000'') (leap_day_process [''PORT'' \<mapsto> ''8080'']))"
    by (simp add: step_def start_def del: advance.simps)
  have before: "serve bare_express (start (leap_day_process [''PORT'' \<mapsto> ''8080'']))
      [EnvSet ''PORT'' ''9000'', EnvSet ''NODE_ENV'' ''production''] = []"
    by simp
  show ?thesis
    using port_read_once_environment_per_request
      [of "[EnvSet ''PORT'' ''9000'', EnvSet ''NODE_ENV'' ''production'']"
        "leap_day_process [''PORT'' \<mapsto> ''8080'']" bare_express "''9000''" "[]"
        "get ''/api/info''"]
    unfolding Let_def now before
    by (simp add: get_fields bare_express_passes get_not_fresh env_set_fields leap_day_fields
        leap_day_clock PORT_def js_or_def del: advance.simps)
qed

end
